theory Spec2Isabelle
  imports Complex_Main "HOL-Library.Word"
begin

unbundle bit_operations_syntax

section \<open>DxvkImage: view format compatibility (dxvk\_image.h)\<close>

text \<open>
  \<^verbatim>\<open>VkFormat\<close> is a C enumeration; only equality of formats is used here, so a
  format is its numeric value.
\<close>

type_synonym VkFormat = nat

text \<open>
  The two members of \<^verbatim>\<open>DxvkImage\<close> that \<^verbatim>\<open>isViewCompatible\<close> reads:
  \<^verbatim>\<open>m_info.format\<close>, the format the image was created with, and
  \<^verbatim>\<open>m_viewFormats\<close>, the vector of additional view formats.
\<close>

record DxvkImage =
  m_info_format :: VkFormat
  m_viewFormats :: "VkFormat list"

text \<open>
  The loop of \<^verbatim>\<open>isViewCompatible\<close>:
  \<^verbatim>\<open>for (uint32_t i = 0; i < m_viewFormats.size() && !result; i++)
    result |= m_viewFormats[i] == format;\<close>
  The index is a natural number here: it stays below the vector's size, which is
  far below \<open>2 ^ 32\<close> for a list of formats.
\<close>

function isViewCompatible_loop :: "VkFormat list \<Rightarrow> VkFormat \<Rightarrow> nat \<Rightarrow> bool \<Rightarrow> bool" where
  "isViewCompatible_loop vf f i result =
     (if i < length vf \<and> \<not> result
      then isViewCompatible_loop vf f (Suc i) (result \<or> vf ! i = f)
      else result)"
  by pat_completeness auto
termination
  by (relation "measure (\<lambda>(vf, f, i, result). length vf - i)") auto

declare isViewCompatible_loop.simps [simp del]

definition isViewCompatible :: "DxvkImage \<Rightarrow> VkFormat \<Rightarrow> bool" where
  "isViewCompatible img f =
     isViewCompatible_loop (m_viewFormats img) f 0 (m_info_format img = f)"

section \<open>Device-memory allocator (dxvk\_memory.cpp)\<close>

text \<open>
  \<^verbatim>\<open>VkDeviceSize\<close> is an unsigned 64-bit integer and \<^verbatim>\<open>VkMemoryPropertyFlags\<close> an
  unsigned 32-bit mask. Handles (\<^verbatim>\<open>VkDeviceMemory\<close>) are numbers, \<open>0\<close> being
  \<^verbatim>\<open>VK_NULL_HANDLE\<close>; host pointers are 64-bit addresses, \<open>0\<close> being \<^verbatim>\<open>nullptr\<close>.
  The memory priority is a C \<^verbatim>\<open>float\<close> that the allocator only stores, compares
  for equality and resets to \<^verbatim>\<open>0.0f\<close>; it is a rational number here (no NaN).
\<close>

type_synonym VkDeviceSize = "64 word"
type_synonym VkMemoryPropertyFlags = "32 word"
type_synonym VkDeviceMemory = nat
type_synonym host_ptr = "64 word"



record FreeSlice =
  offset :: VkDeviceSize
  slength :: VkDeviceSize

record DxvkDeviceMemory =
  memHandle :: VkDeviceMemory
  memPointer :: host_ptr
  memSize :: VkDeviceSize
  memFlags :: VkMemoryPropertyFlags
  priority :: rat


record DxvkMemoryChunk =
  chunk_memory :: DxvkDeviceMemory
  m_freeList :: "FreeSlice list"










subsection \<open>Allocation from a memory type\<close>

record DxvkMemoryStats =
  memoryAllocated :: VkDeviceSize
  memoryUsed :: VkDeviceSize

record DxvkMemoryHeap =
  chunkSize :: VkDeviceSize
  stats :: DxvkMemoryStats

text \<open>
  A memory type. In the source \<^verbatim>\<open>heap\<close> points to the heap shared by the types that
  live on it; \<^verbatim>\<open>tryAllocFromType\<close> works on one type, whose heap is held here.
\<close>

record DxvkMemoryType =
  heap :: DxvkMemoryHeap
  memTypeId :: "32 word"
  chunks :: "DxvkMemoryChunk list"

record VkMemoryDedicatedAllocateInfoKHR =
  ded_image :: nat
  ded_buffer :: nat

text \<open>
  The request handed to \<^verbatim>\<open>vkAllocateMemory\<close>. The \<^verbatim>\<open>pNext\<close> chain holds the
  priority structure when memory priorities are used, followed by the dedicated
  allocation structure when there is one.
\<close>

record VkMemoryAllocateInfo =
  allocationSize :: VkDeviceSize
  memoryTypeIndex :: "32 word"
  pNext_priority :: "rat option"
  pNext_dedicated :: "VkMemoryDedicatedAllocateInfoKHR option"


text \<open>
  The allocator's state as far as one memory type is concerned, with the list of
  requests made to \<^verbatim>\<open>vkAllocateMemory\<close> so far. The adapter's own heap accounting
  (\<^verbatim>\<open>notifyHeapMemoryAlloc\<close>) is left out.
\<close>

record alloc_state =
  a_type :: DxvkMemoryType
  vk_calls :: "VkMemoryAllocateInfo list"



definition add_memoryUsed :: "VkDeviceSize \<Rightarrow> alloc_state \<Rightarrow> alloc_state" where
  "add_memoryUsed n s =
     s\<lparr>a_type := (a_type s)\<lparr>heap := (heap (a_type s))\<lparr>stats := (stats (heap (a_type s)))
         \<lparr>memoryUsed := memoryUsed (stats (heap (a_type s))) + n\<rparr>\<rparr>\<rparr>\<rparr>"

definition set_chunks :: "DxvkMemoryChunk list \<Rightarrow> alloc_state \<Rightarrow> alloc_state" where
  "set_chunks cs s = s\<lparr>a_type := (a_type s)\<lparr>chunks := cs\<rparr>\<rparr>"






subsection \<open>Notions used to state the allocator's properties\<close>

text \<open>
  A slice covers the bytes from \<open>lo\<close> (inclusive) to \<open>hi\<close> (exclusive), read as
  natural numbers, so that \<open>hi\<close> does not wrap around.
\<close>

definition lo :: "FreeSlice \<Rightarrow> nat" where
  "lo s = unat (offset s)"

definition hi :: "FreeSlice \<Rightarrow> nat" where
  "hi s = unat (offset s) + unat (slength s)"




text \<open>The sum of the lengths of the slices of a free list.\<close>

definition freeBytes :: "FreeSlice list \<Rightarrow> nat" where
  "freeBytes fl = (\<Sum>s\<leftarrow>fl. unat (slength s))"

















section \<open>Command stream and implicit flushes (d3d11\_context\_imm.cpp, d3d9\_device.cpp)\<close>

text \<open>
  Result codes are 32-bit values; a code is a failure when it is negative as a signed
  number (the \<^verbatim>\<open>FAILED\<close> macro). The numeric values are those of the Windows headers.
\<close>

type_synonym HRESULT = "32 word"

definition S_OK :: HRESULT where "S_OK = 0"
definition S_FALSE :: HRESULT where "S_FALSE = 1"
definition E_INVALIDARG :: HRESULT where "E_INVALIDARG = 0x80070057"
definition DXGI_ERROR_WAS_STILL_DRAWING :: HRESULT where "DXGI_ERROR_WAS_STILL_DRAWING = 0x887A000A"
definition D3D_OK :: HRESULT where "D3D_OK = 0"
definition D3DERR_INVALIDCALL :: HRESULT where "D3DERR_INVALIDCALL = 0x8876086C"
definition D3DERR_WASSTILLDRAWING :: HRESULT where "D3DERR_WASSTILLDRAWING = 0x8876021C"

definition FAILED :: "HRESULT \<Rightarrow> bool" where
  "FAILED hr = (sint hr < 0)"

text \<open>Resources (\<^verbatim>\<open>Rc<DxvkResource>\<close>: buffers and images) are named by numbers.\<close>

type_synonym resource_id = nat

record DxvkBufferSliceHandle =
  handle :: nat
  sl_offset :: VkDeviceSize
  sl_length :: VkDeviceSize
  mapPtr :: host_ptr

text \<open>
  The commands that the modelled functions hand to the worker thread; each stands for
  the closure passed to \<^verbatim>\<open>EmitCs\<close>, named after the \<^verbatim>\<open>DxvkContext\<close> method it calls.
\<close>

datatype cs_cmd =
    flushCommandList
  | invalidateBuffer resource_id DxvkBufferSliceHandle
  | copyImageToBuffer resource_id resource_id nat
  | setMultisampleState "32 word" bool
  | setBlendConstants "32 word"
  | setStencilReference "32 word"
  | pushConstants_alphaRef "32 word"
  | resolveZ
  | other_cmd nat

text \<open>
  The part of an immediate context (\<^verbatim>\<open>D3D11ImmediateContext\<close>, \<^verbatim>\<open>D3D9DeviceEx\<close>)
  that deals with the command stream, and what it reads from its surroundings.

  \<^item> \<open>m_csChunk\<close>: the commands in the current chunk; \<open>cs_dispatched\<close>: the commands
    of the chunks handed to the worker (\<^verbatim>\<open>m_csThread.dispatchChunk\<close>), in order;
    \<open>cs_synced\<close>: how many of them the worker is known to have run, set by
    \<^verbatim>\<open>m_csThread.synchronize()\<close>; \<open>chunk_capacity\<close>: how many commands a chunk holds.
  \<^item> \<open>m_csIsBusy\<close>, \<open>m_lastFlush\<close>: the members of those names. Time points count
    ticks of \<^verbatim>\<open>high_resolution_clock\<close>, of which \<open>ticks_per_us\<close> make a microsecond.
  \<^item> \<open>init_flushes\<close>: the number of calls of \<^verbatim>\<open>m_initializer->Flush()\<close>, which
    submits the initialization context's own command list.
  \<^item> \<open>clock\<close>: what the \<open>n\<close>-th call of \<^verbatim>\<open>high_resolution_clock::now()\<close> returns,
    \<open>clock_reads\<close> the number of calls so far.
  \<^item> \<open>pendingSubmissions\<close>: what \<^verbatim>\<open>m_device->pendingSubmissions()\<close> returns.
  \<^item> \<open>inUse\<close>: what the \<open>n\<close>-th call of \<^verbatim>\<open>isInUse()\<close> returns for a resource,
    \<open>polls\<close> the number of calls so far. The GPU finishes work on its own time, so
    the answers are given from outside.
  \<^item> \<open>allowMapFlagNoWait\<close>: the configuration option of that name.
\<close>

record cs_state =
  m_csChunk :: "cs_cmd list"
  cs_dispatched :: "cs_cmd list"
  cs_synced :: nat
  chunk_capacity :: nat
  m_csIsBusy :: bool
  m_lastFlush :: int
  init_flushes :: nat
  clock :: "nat \<Rightarrow> int"
  clock_reads :: nat
  ticks_per_us :: nat
  pendingSubmissions :: "32 word"
  inUse :: "resource_id \<Rightarrow> nat \<Rightarrow> bool"
  polls :: nat
  allowMapFlagNoWait :: bool

text \<open>\<^verbatim>\<open>std::chrono::high_resolution_clock::now()\<close>.\<close>

definition clock_now :: "'a cs_state_scheme \<Rightarrow> int \<times> 'a cs_state_scheme" where
  "clock_now s = (clock s (clock_reads s), s\<lparr>clock_reads := Suc (clock_reads s)\<rparr>)"

text \<open>\<^verbatim>\<open>Resource->isInUse()\<close>.\<close>

definition isInUse :: "resource_id \<Rightarrow> 'a cs_state_scheme \<Rightarrow> bool \<times> 'a cs_state_scheme" where
  "isInUse res s = (inUse s res (polls s), s\<lparr>polls := Suc (polls s)\<rparr>)"

text \<open>
  \<^verbatim>\<open>EmitCsChunk\<close> (the same in both contexts): the chunk goes to the worker and the
  context is marked busy.
\<close>

definition EmitCsChunk :: "cs_cmd list \<Rightarrow> 'a cs_state_scheme \<Rightarrow> 'a cs_state_scheme" where
  "EmitCsChunk chunk s = s\<lparr>cs_dispatched := cs_dispatched s @ chunk, m_csIsBusy := True\<rparr>"

text \<open>
  Modelled from the spec: \<^verbatim>\<open>EmitCs\<close> and \<^verbatim>\<open>FlushCsChunk\<close> are members of the
  context base classes, whose files are not part of the excerpt. The specification says
  that a command is appended to the current chunk, and that when the producer finishes
  emitting or exceeds the chunk's capacity it publishes the chunk to the worker and takes
  a fresh one. \<^verbatim>\<open>EmitCs\<close> appends the command, publishing the chunk first when it is
  full; \<^verbatim>\<open>FlushCsChunk\<close> publishes the current chunk unless it is empty.
\<close>

definition EmitCs :: "cs_cmd \<Rightarrow> 'a cs_state_scheme \<Rightarrow> 'a cs_state_scheme" where
  "EmitCs cmd s =
     (if length (m_csChunk s) < chunk_capacity s
      then s\<lparr>m_csChunk := m_csChunk s @ [cmd]\<rparr>
      else (EmitCsChunk (m_csChunk s) s)\<lparr>m_csChunk := [cmd]\<rparr>)"

definition FlushCsChunk :: "'a cs_state_scheme \<Rightarrow> 'a cs_state_scheme" where
  "FlushCsChunk s =
     (if m_csChunk s \<noteq> []
      then (EmitCsChunk (m_csChunk s) s)\<lparr>m_csChunk := []\<rparr>
      else s)"

text \<open>
  \<^verbatim>\<open>SynchronizeCsThread\<close> (the same in both contexts): dispatch the current chunk, then
  wait until the worker has run everything dispatched.
\<close>

definition SynchronizeCsThread :: "'a cs_state_scheme \<Rightarrow> 'a cs_state_scheme" where
  "SynchronizeCsThread s =
     (let s1 = FlushCsChunk s in s1\<lparr>cs_synced := length (cs_dispatched s1)\<rparr>)"

text \<open>The constants at the head of d3d11\_context\_imm.cpp.\<close>

definition MinFlushIntervalUs :: "32 word" where "MinFlushIntervalUs = 750"
definition IncFlushIntervalUs :: "32 word" where "IncFlushIntervalUs = 250"
definition MaxPendingSubmits :: "32 word" where "MaxPendingSubmits = 6"

text \<open>
  \<^verbatim>\<open>D3D11ImmediateContext::Flush\<close>. The initialization context is flushed first; the
  context's own commands are submitted only when it is busy or the current chunk holds
  a command.
\<close>

definition D3D11_Flush :: "'a cs_state_scheme \<Rightarrow> 'a cs_state_scheme" where
  "D3D11_Flush s =
     (let s0 = s\<lparr>init_flushes := Suc (init_flushes s)\<rparr> in
      if m_csIsBusy s0 \<or> length (m_csChunk s0) \<noteq> 0 then
        (let s1 = EmitCs flushCommandList s0;
             s2 = FlushCsChunk s1;
             (now, s3) = clock_now s2
         in s3\<lparr>m_lastFlush := now, m_csIsBusy := False\<rparr>)
      else s0)"

text \<open>
  \<^verbatim>\<open>D3D11ImmediateContext::FlushImplicit\<close>. \<open>delay\<close> is a \<^verbatim>\<open>uint32_t\<close>; the elapsed
  time is compared with \<^verbatim>\<open>std::chrono::microseconds(delay)\<close>.
\<close>

definition D3D11_FlushImplicit :: "bool \<Rightarrow> 'a cs_state_scheme \<Rightarrow> 'a cs_state_scheme" where
  "D3D11_FlushImplicit StrongHint s =
     (let pending = pendingSubmissions s in
      if StrongHint \<or> pending \<le> MaxPendingSubmits then
        (let (now, s1) = clock_now s;
             delay = MinFlushIntervalUs + IncFlushIntervalUs * pending
         in if now - m_lastFlush s1 \<ge> int (unat delay) * int (ticks_per_us s1)
            then D3D11_Flush s1
            else s1)
      else s)"

text \<open>
  The loop \<^verbatim>\<open>while (Resource->isInUse()) dxvk::this_thread::yield();\<close> of
  \<^verbatim>\<open>WaitForResource\<close>. It runs for as long as the resource is reported in use;
  \<open>None\<close> is the loop that never ends.
\<close>

partial_function (option) wait_loop :: "resource_id \<Rightarrow> 'a cs_state_scheme \<Rightarrow> 'a cs_state_scheme option" where
  "wait_loop res s =
     (if inUse s res (polls s)
      then wait_loop res (s\<lparr>polls := Suc (polls s)\<rparr>)
      else Some (s\<lparr>polls := Suc (polls s)\<rparr>))"

definition D3D11_MAP_FLAG_DO_NOT_WAIT :: "32 word" where
  "D3D11_MAP_FLAG_DO_NOT_WAIT = 0x100000"

text \<open>
  \<^verbatim>\<open>D3D11ImmediateContext::WaitForResource\<close>. The result is \<open>None\<close> when the call
  never returns.
\<close>

definition D3D11_WaitForResource ::
  "resource_id \<Rightarrow> 32 word \<Rightarrow> 'a cs_state_scheme \<Rightarrow> (bool \<times> 'a cs_state_scheme) option" where
  "D3D11_WaitForResource Resource MapFlags0 s =
     (let MapFlags = (if \<not> allowMapFlagNoWait s
                      then MapFlags0 AND NOT D3D11_MAP_FLAG_DO_NOT_WAIT
                      else MapFlags0);
          s1 = SynchronizeCsThread s;
          (busy, s2) = isInUse Resource s1
      in if busy then
           (if MapFlags AND D3D11_MAP_FLAG_DO_NOT_WAIT \<noteq> 0
            then Some (False, D3D11_FlushImplicit False s2)
            else (let s3 = D3D11_Flush s2;
                      s4 = SynchronizeCsThread s3
                  in case wait_loop Resource s4 of
                       None \<Rightarrow> None
                     | Some s5 \<Rightarrow> Some (True, s5)))
         else Some (True, s2))"

section \<open>Mapping resources on the immediate context (d3d11\_context\_imm.cpp)\<close>

datatype D3D11_MAP =
    D3D11_MAP_READ
  | D3D11_MAP_WRITE
  | D3D11_MAP_READ_WRITE
  | D3D11_MAP_WRITE_DISCARD
  | D3D11_MAP_WRITE_NO_OVERWRITE

text \<open>The caller's \<^verbatim>\<open>D3D11_MAPPED_SUBRESOURCE\<close> structure.\<close>

record D3D11_MAPPED_SUBRESOURCE =
  pData :: host_ptr
  RowPitch :: "32 word"
  DepthPitch :: "32 word"

text \<open>The value-initialized structure \<^verbatim>\<open>D3D11_MAPPED_SUBRESOURCE()\<close>.\<close>

definition D3D11_MAPPED_SUBRESOURCE_zero :: D3D11_MAPPED_SUBRESOURCE where
  "D3D11_MAPPED_SUBRESOURCE_zero = \<lparr>pData = 0, RowPitch = 0, DepthPitch = 0\<rparr>"

text \<open>
  A \<^verbatim>\<open>DxvkBuffer\<close> with its rename pool. \<open>m_freeSlices\<close> are the slices waiting in
  the pool, \<open>m_newSlices n\<close> is the slice that the \<open>n\<close>-th enlargement of the pool
  yields, \<open>m_grown\<close> counts the enlargements. \<open>m_physSlice\<close> is the slice the
  worker has installed last; the worker installs a slice when it runs the
  \<^verbatim>\<open>invalidateBuffer\<close> command that names it.
\<close>

record DxvkBuffer =
  buffer_id :: resource_id
  m_freeSlices :: "DxvkBufferSliceHandle list"
  m_newSlices :: "nat \<Rightarrow> DxvkBufferSliceHandle"
  m_grown :: nat
  m_physSlice :: DxvkBufferSliceHandle

text \<open>
  Modelled from the spec: \<^verbatim>\<open>DxvkBuffer::allocSlice\<close> is defined in a header that is not
  part of the excerpt. The specification says that it obtains the next slice from the
  rename pool, allocating a new slice if the pool is exhausted.
\<close>

definition allocSlice :: "DxvkBuffer \<Rightarrow> DxvkBufferSliceHandle \<times> DxvkBuffer" where
  "allocSlice b =
     (case m_freeSlices b of
        x # xs \<Rightarrow> (x, b\<lparr>m_freeSlices := xs\<rparr>)
      | [] \<Rightarrow> (m_newSlices b (m_grown b), b\<lparr>m_grown := Suc (m_grown b)\<rparr>))"

datatype D3D11_COMMON_BUFFER_MAP_MODE =
    D3D11_COMMON_BUFFER_MAP_MODE_NONE
  | D3D11_COMMON_BUFFER_MAP_MODE_DIRECT

text \<open>
  A \<^verbatim>\<open>D3D11Buffer\<close>: its map mode, \<^verbatim>\<open>Desc()->ByteWidth\<close>, the \<^verbatim>\<open>DxvkBuffer\<close>
  behind it and \<open>m_mapped\<close>, the slice that is current for the API.
\<close>

record D3D11Buffer =
  buf_MapMode :: D3D11_COMMON_BUFFER_MAP_MODE
  buf_ByteWidth :: "32 word"
  m_buffer :: DxvkBuffer
  m_mapped :: DxvkBufferSliceHandle

text \<open>
  Modelled from the spec: \<^verbatim>\<open>D3D11Buffer::DiscardSlice\<close> and \<^verbatim>\<open>GetMappedSlice\<close> are
  defined in a header that is not part of the excerpt. The specification calls
  \<^verbatim>\<open>discard_slice\<close> the rename on the API surface: it takes a slice with
  \<^verbatim>\<open>alloc_slice\<close> and makes it the buffer's current slice.
\<close>

definition DiscardSlice :: "D3D11Buffer \<Rightarrow> DxvkBufferSliceHandle \<times> D3D11Buffer" where
  "DiscardSlice b =
     (case allocSlice (m_buffer b) of
        (sl, db) \<Rightarrow> (sl, b\<lparr>m_buffer := db, m_mapped := sl\<rparr>))"

definition GetMappedSlice :: "D3D11Buffer \<Rightarrow> DxvkBufferSliceHandle" where
  "GetMappedSlice b = m_mapped b"

text \<open>
  \<^verbatim>\<open>D3D11ImmediateContext::MapBuffer\<close>. \<open>out\<close> is the content of
  \<^verbatim>\<open>*pMappedResource\<close> before the call; the result holds its content afterwards, the
  buffer and the context. \<open>None\<close> is a call that never returns.
\<close>

definition D3D11_MapBuffer ::
  "D3D11Buffer \<Rightarrow> D3D11_MAP \<Rightarrow> 32 word \<Rightarrow> D3D11_MAPPED_SUBRESOURCE \<Rightarrow> 'a cs_state_scheme
    \<Rightarrow> (HRESULT \<times> D3D11_MAPPED_SUBRESOURCE \<times> D3D11Buffer \<times> 'a cs_state_scheme) option" where
  "D3D11_MapBuffer pResource MapType MapFlags out s =
     (if buf_MapMode pResource = D3D11_COMMON_BUFFER_MAP_MODE_NONE
      then Some (E_INVALIDARG, out, pResource, s)
      else if MapType = D3D11_MAP_WRITE_DISCARD then
        (case DiscardSlice pResource of
           (physSlice, r1) \<Rightarrow>
             Some (S_OK,
                   \<lparr>pData = mapPtr physSlice,
                     RowPitch = buf_ByteWidth r1,
                     DepthPitch = buf_ByteWidth r1\<rparr>,
                   r1,
                   EmitCs (invalidateBuffer (buffer_id (m_buffer r1)) physSlice) s))
      else
        (case (if MapType \<noteq> D3D11_MAP_WRITE_NO_OVERWRITE
               then D3D11_WaitForResource (buffer_id (m_buffer pResource)) MapFlags s
               else Some (True, s)) of
           None \<Rightarrow> None
         | Some (idle, s1) \<Rightarrow>
             if \<not> idle then Some (DXGI_ERROR_WAS_STILL_DRAWING, out, pResource, s1)
             else
               (let physSlice = GetMappedSlice pResource
                in Some (S_OK,
                         \<lparr>pData = mapPtr physSlice,
                           RowPitch = buf_ByteWidth pResource,
                           DepthPitch = buf_ByteWidth pResource\<rparr>,
                         pResource, s1))))"

datatype D3D11_COMMON_TEXTURE_MAP_MODE =
    D3D11_COMMON_TEXTURE_MAP_MODE_NONE
  | D3D11_COMMON_TEXTURE_MAP_MODE_BUFFER
  | D3D11_COMMON_TEXTURE_MAP_MODE_DIRECT

datatype D3D11_USAGE =
    D3D11_USAGE_DEFAULT
  | D3D11_USAGE_IMMUTABLE
  | D3D11_USAGE_DYNAMIC
  | D3D11_USAGE_STAGING

record VkSubresourceLayout =
  l_offset :: VkDeviceSize
  l_size :: VkDeviceSize
  l_rowPitch :: VkDeviceSize
  l_depthPitch :: VkDeviceSize

text \<open>
  A \<^verbatim>\<open>D3D11CommonTexture\<close>, as far as \<^verbatim>\<open>MapImage\<close> reads it. The texture class, the
  format tables and the image's layout queries are not part of the excerpt; what they
  return is held in fields: \<open>tex_layout i\<close> is \<^verbatim>\<open>querySubresourceLayout\<close> of
  subresource \<open>i\<close>, \<open>tex_imageMapPtr\<close> the image's \<^verbatim>\<open>mapPtr(0)\<close>,
  \<open>tex_elementSize\<close> the packed format's element size, \<open>tex_blockCount i\<close> the
  width and height of \<^verbatim>\<open>computeBlockCount\<close> for the mip level of subresource \<open>i\<close>,
  \<open>tex_imageType\<close> the \<^verbatim>\<open>VkImageType\<close> (0, 1, 2 for 1D, 2D, 3D),
  \<open>m_mappedBuffers i\<close> the staging buffer of subresource \<open>i\<close>, and
  \<open>m_mapTypes i\<close> its recorded map type (\<open>None\<close> for \<^verbatim>\<open>D3D11_MAP(~0u)\<close>).
\<close>

record D3D11CommonTexture =
  tex_MapMode :: D3D11_COMMON_TEXTURE_MAP_MODE
  tex_CountSubresources :: nat
  tex_Usage :: D3D11_USAGE
  tex_CanUpdateMappedBufferEarly :: bool
  tex_image :: resource_id
  tex_imageType :: nat
  tex_imageMapPtr :: host_ptr
  tex_layout :: "nat \<Rightarrow> VkSubresourceLayout"
  tex_elementSize :: VkDeviceSize
  tex_blockCount :: "nat \<Rightarrow> 32 word \<times> 32 word"
  m_mappedBuffers :: "nat \<Rightarrow> DxvkBuffer"
  m_mapTypes :: "nat \<Rightarrow> D3D11_MAP option"

text \<open>
  Modelled from the spec: \<^verbatim>\<open>UpdateMappedBuffer\<close> is defined in a file that is not part
  of the excerpt. The specification says that it enqueues a copy from the image to the
  staging buffer.
\<close>

definition UpdateMappedBuffer ::
  "D3D11CommonTexture \<Rightarrow> nat \<Rightarrow> 'a cs_state_scheme \<Rightarrow> 'a cs_state_scheme" where
  "UpdateMappedBuffer pResource Subresource s =
     EmitCs (copyImageToBuffer (buffer_id (m_mappedBuffers pResource Subresource))
               (tex_image pResource) Subresource) s"

text \<open>The tightly packed pitches that \<^verbatim>\<open>MapImage\<close> reports for a staging buffer.\<close>

definition packed_pitches :: "D3D11CommonTexture \<Rightarrow> nat \<Rightarrow> host_ptr \<Rightarrow> D3D11_MAPPED_SUBRESOURCE" where
  "packed_pitches pResource Subresource p =
     (case tex_blockCount pResource Subresource of
        (width, height) \<Rightarrow>
          \<lparr>pData = p,
            RowPitch = ucast (tex_elementSize pResource * ucast width),
            DepthPitch = ucast (tex_elementSize pResource * ucast width * ucast height)\<rparr>)"

text \<open>
  \<^verbatim>\<open>D3D11ImmediateContext::MapImage\<close>. In the \<^verbatim>\<open>WRITE_DISCARD\<close> branch the new
  slice is recorded as \<open>m_physSlice\<close> of the staging buffer at once; in the code the
  worker records it when it runs the \<^verbatim>\<open>invalidateBuffer\<close> command emitted here.
\<close>

definition D3D11_MapImage ::
  "D3D11CommonTexture \<Rightarrow> nat \<Rightarrow> D3D11_MAP \<Rightarrow> 32 word \<Rightarrow> D3D11_MAPPED_SUBRESOURCE
    \<Rightarrow> 'a cs_state_scheme
    \<Rightarrow> (HRESULT \<times> D3D11_MAPPED_SUBRESOURCE \<times> D3D11CommonTexture \<times> 'a cs_state_scheme) option" where
  "D3D11_MapImage pResource Subresource MapType MapFlags out s =
     (let mappedImage = tex_image pResource;
          mappedBuffer = m_mappedBuffers pResource Subresource
      in
      if tex_MapMode pResource = D3D11_COMMON_TEXTURE_MAP_MODE_NONE
      then Some (E_INVALIDARG, out, pResource, s)
      else if Subresource \<ge> tex_CountSubresources pResource
      then Some (E_INVALIDARG, out, pResource, s)
      else
        (let r1 = pResource\<lparr>m_mapTypes := (m_mapTypes pResource)(Subresource := Some MapType)\<rparr>
         in
         if tex_MapMode r1 = D3D11_COMMON_TEXTURE_MAP_MODE_DIRECT then
           (case D3D11_WaitForResource mappedImage MapFlags s of
              None \<Rightarrow> None
            | Some (idle, s1) \<Rightarrow>
                if \<not> idle then Some (DXGI_ERROR_WAS_STILL_DRAWING, out, r1, s1)
                else
                  (let layout = tex_layout r1 Subresource
                   in Some (S_OK,
                            \<lparr>pData = tex_imageMapPtr r1 + l_offset layout,
                              RowPitch = ucast (if tex_imageType r1 \<ge> 1
                                                then l_rowPitch layout else l_size layout),
                              DepthPitch = ucast (if tex_imageType r1 \<ge> 2
                                                  then l_depthPitch layout else l_size layout)\<rparr>,
                            r1, s1)))
         else if MapType = D3D11_MAP_WRITE_DISCARD then
           (case allocSlice mappedBuffer of
              (physSlice, b1) \<Rightarrow>
                Some (S_OK,
                      packed_pitches r1 Subresource (mapPtr physSlice),
                      r1\<lparr>m_mappedBuffers :=
                            (m_mappedBuffers r1)(Subresource := b1\<lparr>m_physSlice := physSlice\<rparr>)\<rparr>,
                      EmitCs (invalidateBuffer (buffer_id mappedBuffer) physSlice) s))
         else
           (case (if tex_Usage r1 = D3D11_USAGE_STAGING \<and> \<not> tex_CanUpdateMappedBufferEarly r1
                  then (UpdateMappedBuffer r1 Subresource s,
                        MapFlags AND NOT D3D11_MAP_FLAG_DO_NOT_WAIT)
                  else (s, MapFlags)) of
              (s0, MapFlags1) \<Rightarrow>
                (case D3D11_WaitForResource (buffer_id mappedBuffer) MapFlags1 s0 of
                   None \<Rightarrow> None
                 | Some (idle, s1) \<Rightarrow>
                     if \<not> idle then Some (DXGI_ERROR_WAS_STILL_DRAWING, out, r1, s1)
                     else Some (S_OK,
                                packed_pitches r1 Subresource (mapPtr (m_physSlice mappedBuffer)),
                                r1, s1)))))"

text \<open>
  A resource is a buffer or a texture (\<^verbatim>\<open>GetType\<close> tells which). In
  \<^verbatim>\<open>D3D11ImmediateContext::Map\<close> the two pointer arguments may be null (\<open>None\<close>); the
  result holds the returned code, the content of \<^verbatim>\<open>*pMappedResource\<close> afterwards
  (where there is one), the resource and the context.
\<close>

datatype D3D11_RESOURCE =
    BufferResource D3D11Buffer
  | TextureResource D3D11CommonTexture

definition D3D11_Map ::
  "D3D11_RESOURCE option \<Rightarrow> nat \<Rightarrow> D3D11_MAP \<Rightarrow> 32 word \<Rightarrow> D3D11_MAPPED_SUBRESOURCE option
    \<Rightarrow> 'a cs_state_scheme
    \<Rightarrow> (HRESULT \<times> D3D11_MAPPED_SUBRESOURCE option \<times> D3D11_RESOURCE option \<times> 'a cs_state_scheme) option" where
  "D3D11_Map pResource Subresource MapType MapFlags pMappedResource s =
     (case (pResource, pMappedResource) of
        (Some res, Some out) \<Rightarrow>
          (case (case res of
                   BufferResource b \<Rightarrow>
                     map_option (\<lambda>(hr, out1, b1, s1). (hr, out1, BufferResource b1, s1))
                       (D3D11_MapBuffer b MapType MapFlags out s)
                 | TextureResource t \<Rightarrow>
                     map_option (\<lambda>(hr, out1, t1, s1). (hr, out1, TextureResource t1, s1))
                       (D3D11_MapImage t Subresource MapType MapFlags out s)) of
             None \<Rightarrow> None
           | Some (hr, out1, res1, s1) \<Rightarrow>
               Some (hr,
                     Some (if FAILED hr then D3D11_MAPPED_SUBRESOURCE_zero else out1),
                     Some res1, s1))
      | _ \<Rightarrow> Some (E_INVALIDARG, pMappedResource, pResource, s))"

section \<open>Creating views (d3d11\_device.cpp)\<close>

datatype D3D11_RESOURCE_DIMENSION =
    D3D11_RESOURCE_DIMENSION_UNKNOWN
  | D3D11_RESOURCE_DIMENSION_BUFFER
  | D3D11_RESOURCE_DIMENSION_TEXTURE1D
  | D3D11_RESOURCE_DIMENSION_TEXTURE2D
  | D3D11_RESOURCE_DIMENSION_TEXTURE3D

text \<open>What \<^verbatim>\<open>GetCommonResourceDesc\<close> reports about a resource.\<close>

record D3D11_COMMON_RESOURCE_DESC =
  Dim :: D3D11_RESOURCE_DIMENSION
  Format :: nat
  BindFlags :: "32 word"

text \<open>A view description: its format and the rest of the structure.\<close>

record D3D11_VIEW_DESC =
  vd_Format :: nat
  vd_rest :: nat

text \<open>A view object, made from a resource and a description.\<close>

record D3D11_VIEW =
  view_resource :: D3D11_COMMON_RESOURCE_DESC
  view_desc :: D3D11_VIEW_DESC

text \<open>
  The functions of the view classes and of the resource helpers are not part of the
  excerpt; what they return is given from outside, once for each view class:
  \<^verbatim>\<open>GetDescFromResource\<close> and \<^verbatim>\<open>NormalizeDesc\<close> return a code and the
  description, \<^verbatim>\<open>CheckResourceViewCompatibility\<close> a truth value, and the constructor
  of the view either succeeds or throws \<^verbatim>\<open>DxvkError\<close> (\<open>False\<close>).
\<close>

record view_env =
  GetDescFromResource :: "D3D11_COMMON_RESOURCE_DESC \<Rightarrow> HRESULT \<times> D3D11_VIEW_DESC"
  NormalizeDesc :: "D3D11_COMMON_RESOURCE_DESC \<Rightarrow> D3D11_VIEW_DESC \<Rightarrow> HRESULT \<times> D3D11_VIEW_DESC"
  CheckResourceViewCompatibility :: "D3D11_COMMON_RESOURCE_DESC \<Rightarrow> 32 word \<Rightarrow> nat \<Rightarrow> bool"
  view_constructor :: "D3D11_COMMON_RESOURCE_DESC \<Rightarrow> D3D11_VIEW_DESC \<Rightarrow> bool"

definition D3D11_BIND_RENDER_TARGET :: "32 word" where "D3D11_BIND_RENDER_TARGET = 0x20"
definition D3D11_BIND_DEPTH_STENCIL :: "32 word" where "D3D11_BIND_DEPTH_STENCIL = 0x40"

text \<open>
  The output argument of a creation function is a pointer to the caller's view
  pointer: \<open>None\<close> when the argument is null, otherwise the content of the caller's
  pointer, which is \<open>None\<close> for a null view. \<^verbatim>\<open>InitReturnPtr\<close> clears the caller's
  pointer when there is one.
\<close>

definition InitReturnPtr :: "'a option option \<Rightarrow> 'a option option" where
  "InitReturnPtr pp = (case pp of None \<Rightarrow> None | Some v \<Rightarrow> Some None)"

text \<open>
  The description a creation function works with: derived from the resource when the
  caller passes none, normalized otherwise; \<open>None\<close> when that fails.
\<close>

definition view_desc_for ::
  "view_env \<Rightarrow> D3D11_COMMON_RESOURCE_DESC \<Rightarrow> D3D11_VIEW_DESC option \<Rightarrow> D3D11_VIEW_DESC option" where
  "view_desc_for env res pDesc =
     (case pDesc of
        None \<Rightarrow>
          (case GetDescFromResource env res of
             (hr, desc) \<Rightarrow> if FAILED hr then None else Some desc)
      | Some d \<Rightarrow>
          (case NormalizeDesc env res d of
             (hr, desc) \<Rightarrow> if FAILED hr then None else Some desc))"

text \<open>\<^verbatim>\<open>D3D11Device::CreateRenderTargetView\<close>.\<close>

definition CreateRenderTargetView ::
  "view_env \<Rightarrow> D3D11_COMMON_RESOURCE_DESC option \<Rightarrow> D3D11_VIEW_DESC option
    \<Rightarrow> D3D11_VIEW option option \<Rightarrow> HRESULT \<times> D3D11_VIEW option option" where
  "CreateRenderTargetView env pResource pDesc ppRTView =
     (let pp = InitReturnPtr ppRTView in
      case pResource of
        None \<Rightarrow> (E_INVALIDARG, pp)
      | Some resourceDesc \<Rightarrow>
          if Dim resourceDesc = D3D11_RESOURCE_DIMENSION_BUFFER then (S_OK, pp)
          else
            (case view_desc_for env resourceDesc pDesc of
               None \<Rightarrow> (E_INVALIDARG, pp)
             | Some desc \<Rightarrow>
                 if \<not> CheckResourceViewCompatibility env resourceDesc D3D11_BIND_RENDER_TARGET
                        (vd_Format desc)
                 then (E_INVALIDARG, pp)
                 else if pp = None then (S_FALSE, pp)
                 else if view_constructor env resourceDesc desc
                 then (S_OK, Some (Some \<lparr>view_resource = resourceDesc, view_desc = desc\<rparr>))
                 else (E_INVALIDARG, pp)))"

text \<open>\<^verbatim>\<open>D3D11Device::CreateDepthStencilView\<close>.\<close>

definition CreateDepthStencilView ::
  "view_env \<Rightarrow> D3D11_COMMON_RESOURCE_DESC option \<Rightarrow> D3D11_VIEW_DESC option
    \<Rightarrow> D3D11_VIEW option option \<Rightarrow> HRESULT \<times> D3D11_VIEW option option" where
  "CreateDepthStencilView env pResource pDesc ppDepthStencilView =
     (let pp = InitReturnPtr ppDepthStencilView in
      case pResource of
        None \<Rightarrow> (E_INVALIDARG, pp)
      | Some resourceDesc \<Rightarrow>
          (case view_desc_for env resourceDesc pDesc of
             None \<Rightarrow> (E_INVALIDARG, pp)
           | Some desc \<Rightarrow>
               if \<not> CheckResourceViewCompatibility env resourceDesc D3D11_BIND_DEPTH_STENCIL
                      (vd_Format desc)
               then (E_INVALIDARG, pp)
               else if pp = None then (S_FALSE, pp)
               else if view_constructor env resourceDesc desc
               then (S_OK, Some (Some \<lparr>view_resource = resourceDesc, view_desc = desc\<rparr>))
               else (E_INVALIDARG, pp)))"

section \<open>The version-9 device (d3d9\_device.cpp)\<close>

subsection \<open>Implicit flushes and waiting\<close>

text \<open>
  Modelled from the spec: the three flush constants of the version-9 device are
  declared in a header that is not part of the excerpt. The specification gives the
  same policy for both contexts: 750 microseconds, 250 microseconds per pending
  submission, and at most 6 pending submissions.
\<close>

definition D3D9_MinFlushIntervalUs :: "32 word" where "D3D9_MinFlushIntervalUs = 750"
definition D3D9_IncFlushIntervalUs :: "32 word" where "D3D9_IncFlushIntervalUs = 250"
definition D3D9_MaxPendingSubmits :: "32 word" where "D3D9_MaxPendingSubmits = 6"

text \<open>\<^verbatim>\<open>D3D9DeviceEx::Flush\<close>.\<close>

definition D3D9_Flush :: "'a cs_state_scheme \<Rightarrow> 'a cs_state_scheme" where
  "D3D9_Flush s =
     (let s0 = s\<lparr>init_flushes := Suc (init_flushes s)\<rparr> in
      if m_csIsBusy s0 \<or> length (m_csChunk s0) \<noteq> 0 then
        (let s1 = EmitCs flushCommandList s0;
             s2 = FlushCsChunk s1;
             (now, s3) = clock_now s2
         in s3\<lparr>m_lastFlush := now, m_csIsBusy := False\<rparr>)
      else s0)"

text \<open>\<^verbatim>\<open>D3D9DeviceEx::FlushImplicit\<close>.\<close>

definition D3D9_FlushImplicit :: "bool \<Rightarrow> 'a cs_state_scheme \<Rightarrow> 'a cs_state_scheme" where
  "D3D9_FlushImplicit StrongHint s =
     (let pending = pendingSubmissions s in
      if StrongHint \<or> pending \<le> D3D9_MaxPendingSubmits then
        (let (now, s1) = clock_now s;
             delay = D3D9_MinFlushIntervalUs + D3D9_IncFlushIntervalUs * pending
         in if now - m_lastFlush s1 \<ge> int (unat delay) * int (ticks_per_us s1)
            then D3D9_Flush s1
            else s1)
      else s)"

definition D3DLOCK_DONOTWAIT :: "32 word" where
  "D3DLOCK_DONOTWAIT = 0x4000"

text \<open>\<^verbatim>\<open>D3D9DeviceEx::WaitForResource\<close>: as in the version-11 context, but the flag is
  taken as it comes.\<close>

definition D3D9_WaitForResource ::
  "resource_id \<Rightarrow> 32 word \<Rightarrow> 'a cs_state_scheme \<Rightarrow> (bool \<times> 'a cs_state_scheme) option" where
  "D3D9_WaitForResource Resource MapFlags s =
     (let s1 = SynchronizeCsThread s;
          (busy, s2) = isInUse Resource s1
      in if busy then
           (if MapFlags AND D3DLOCK_DONOTWAIT \<noteq> 0
            then Some (False, D3D9_FlushImplicit False s2)
            else (let s3 = D3D9_Flush s2;
                      s4 = SynchronizeCsThread s3
                  in case wait_loop Resource s4 of
                       None \<Rightarrow> None
                     | Some s5 \<Rightarrow> Some (True, s5)))
         else Some (True, s2))"

subsection \<open>Render states\<close>

text \<open>
  The identifiers of the render states that \<^verbatim>\<open>SetRenderState\<close> and
  \<^verbatim>\<open>GetRenderState\<close> name, with their values in the Direct3D 9 headers.
\<close>

definition D3DRS_ZENABLE :: nat where "D3DRS_ZENABLE = 7"
definition D3DRS_FILLMODE :: nat where "D3DRS_FILLMODE = 8"
definition D3DRS_ZWRITEENABLE :: nat where "D3DRS_ZWRITEENABLE = 14"
definition D3DRS_ALPHATESTENABLE :: nat where "D3DRS_ALPHATESTENABLE = 15"
definition D3DRS_SRCBLEND :: nat where "D3DRS_SRCBLEND = 19"
definition D3DRS_DESTBLEND :: nat where "D3DRS_DESTBLEND = 20"
definition D3DRS_CULLMODE :: nat where "D3DRS_CULLMODE = 22"
definition D3DRS_ZFUNC :: nat where "D3DRS_ZFUNC = 23"
definition D3DRS_ALPHAREF :: nat where "D3DRS_ALPHAREF = 24"
definition D3DRS_ALPHAFUNC :: nat where "D3DRS_ALPHAFUNC = 25"
definition D3DRS_ALPHABLENDENABLE :: nat where "D3DRS_ALPHABLENDENABLE = 27"
definition D3DRS_STENCILENABLE :: nat where "D3DRS_STENCILENABLE = 52"
definition D3DRS_STENCILFAIL :: nat where "D3DRS_STENCILFAIL = 53"
definition D3DRS_STENCILZFAIL :: nat where "D3DRS_STENCILZFAIL = 54"
definition D3DRS_STENCILPASS :: nat where "D3DRS_STENCILPASS = 55"
definition D3DRS_STENCILFUNC :: nat where "D3DRS_STENCILFUNC = 56"
definition D3DRS_STENCILREF :: nat where "D3DRS_STENCILREF = 57"
definition D3DRS_STENCILMASK :: nat where "D3DRS_STENCILMASK = 58"
definition D3DRS_STENCILWRITEMASK :: nat where "D3DRS_STENCILWRITEMASK = 59"
definition D3DRS_TEXTUREFACTOR :: nat where "D3DRS_TEXTUREFACTOR = 60"
definition D3DRS_LIGHTING :: nat where "D3DRS_LIGHTING = 137"
definition D3DRS_COLORVERTEX :: nat where "D3DRS_COLORVERTEX = 141"
definition D3DRS_DIFFUSEMATERIALSOURCE :: nat where "D3DRS_DIFFUSEMATERIALSOURCE = 145"
definition D3DRS_SPECULARMATERIALSOURCE :: nat where "D3DRS_SPECULARMATERIALSOURCE = 146"
definition D3DRS_AMBIENTMATERIALSOURCE :: nat where "D3DRS_AMBIENTMATERIALSOURCE = 147"
definition D3DRS_EMISSIVEMATERIALSOURCE :: nat where "D3DRS_EMISSIVEMATERIALSOURCE = 148"
definition D3DRS_CLIPPLANEENABLE :: nat where "D3DRS_CLIPPLANEENABLE = 152"
definition D3DRS_POINTSIZE :: nat where "D3DRS_POINTSIZE = 154"
definition D3DRS_MULTISAMPLEMASK :: nat where "D3DRS_MULTISAMPLEMASK = 162"
definition D3DRS_COLORWRITEENABLE :: nat where "D3DRS_COLORWRITEENABLE = 168"
definition D3DRS_BLENDOP :: nat where "D3DRS_BLENDOP = 171"
definition D3DRS_SCISSORTESTENABLE :: nat where "D3DRS_SCISSORTESTENABLE = 174"
definition D3DRS_SLOPESCALEDEPTHBIAS :: nat where "D3DRS_SLOPESCALEDEPTHBIAS = 175"
definition D3DRS_ADAPTIVETESS_Y :: nat where "D3DRS_ADAPTIVETESS_Y = 181"
definition D3DRS_TWOSIDEDSTENCILMODE :: nat where "D3DRS_TWOSIDEDSTENCILMODE = 185"
definition D3DRS_CCW_STENCILFAIL :: nat where "D3DRS_CCW_STENCILFAIL = 186"
definition D3DRS_CCW_STENCILZFAIL :: nat where "D3DRS_CCW_STENCILZFAIL = 187"
definition D3DRS_CCW_STENCILPASS :: nat where "D3DRS_CCW_STENCILPASS = 188"
definition D3DRS_CCW_STENCILFUNC :: nat where "D3DRS_CCW_STENCILFUNC = 189"
definition D3DRS_COLORWRITEENABLE1 :: nat where "D3DRS_COLORWRITEENABLE1 = 190"
definition D3DRS_COLORWRITEENABLE2 :: nat where "D3DRS_COLORWRITEENABLE2 = 191"
definition D3DRS_COLORWRITEENABLE3 :: nat where "D3DRS_COLORWRITEENABLE3 = 192"
definition D3DRS_BLENDFACTOR :: nat where "D3DRS_BLENDFACTOR = 193"
definition D3DRS_SRGBWRITEENABLE :: nat where "D3DRS_SRGBWRITEENABLE = 194"
definition D3DRS_DEPTHBIAS :: nat where "D3DRS_DEPTHBIAS = 195"
definition D3DRS_SEPARATEALPHABLENDENABLE :: nat where "D3DRS_SEPARATEALPHABLENDENABLE = 206"
definition D3DRS_SRCBLENDALPHA :: nat where "D3DRS_SRCBLENDALPHA = 207"
definition D3DRS_DESTBLENDALPHA :: nat where "D3DRS_DESTBLENDALPHA = 208"
definition D3DRS_BLENDOPALPHA :: nat where "D3DRS_BLENDOPALPHA = 209"

lemmas D3DRS_defs =
  D3DRS_ZENABLE_def D3DRS_FILLMODE_def D3DRS_ZWRITEENABLE_def D3DRS_ALPHATESTENABLE_def
  D3DRS_SRCBLEND_def D3DRS_DESTBLEND_def D3DRS_CULLMODE_def D3DRS_ZFUNC_def D3DRS_ALPHAREF_def
  D3DRS_ALPHAFUNC_def D3DRS_ALPHABLENDENABLE_def D3DRS_STENCILENABLE_def D3DRS_STENCILFAIL_def
  D3DRS_STENCILZFAIL_def D3DRS_STENCILPASS_def D3DRS_STENCILFUNC_def D3DRS_STENCILREF_def
  D3DRS_STENCILMASK_def D3DRS_STENCILWRITEMASK_def D3DRS_TEXTUREFACTOR_def D3DRS_LIGHTING_def
  D3DRS_COLORVERTEX_def D3DRS_DIFFUSEMATERIALSOURCE_def D3DRS_SPECULARMATERIALSOURCE_def
  D3DRS_AMBIENTMATERIALSOURCE_def D3DRS_EMISSIVEMATERIALSOURCE_def D3DRS_CLIPPLANEENABLE_def
  D3DRS_POINTSIZE_def D3DRS_MULTISAMPLEMASK_def D3DRS_COLORWRITEENABLE_def D3DRS_BLENDOP_def
  D3DRS_SCISSORTESTENABLE_def D3DRS_SLOPESCALEDEPTHBIAS_def D3DRS_ADAPTIVETESS_Y_def
  D3DRS_TWOSIDEDSTENCILMODE_def D3DRS_CCW_STENCILFAIL_def D3DRS_CCW_STENCILZFAIL_def
  D3DRS_CCW_STENCILPASS_def D3DRS_CCW_STENCILFUNC_def D3DRS_COLORWRITEENABLE1_def
  D3DRS_COLORWRITEENABLE2_def D3DRS_COLORWRITEENABLE3_def D3DRS_BLENDFACTOR_def
  D3DRS_SRGBWRITEENABLE_def D3DRS_DEPTHBIAS_def D3DRS_SEPARATEALPHABLENDENABLE_def
  D3DRS_SRCBLENDALPHA_def D3DRS_DESTBLENDALPHA_def D3DRS_BLENDOPALPHA_def

text \<open>\<^verbatim>\<open>D3DMULTISAMPLE_NONMASKABLE\<close> and the number of render target slots.\<close>

definition D3DMULTISAMPLE_NONMASKABLE :: nat where "D3DMULTISAMPLE_NONMASKABLE = 1"

definition MaxSimultaneousRenderTargets :: nat where "MaxSimultaneousRenderTargets = 4"

text \<open>
  \<^verbatim>\<open>MAKEFOURCC\<close> packs four characters into a 32-bit value, the first in the lowest
  byte; the three magic values of the vendor hacks in \<^verbatim>\<open>SetRenderState\<close>.
\<close>

definition MAKEFOURCC :: "nat \<Rightarrow> nat \<Rightarrow> nat \<Rightarrow> nat \<Rightarrow> 32 word" where
  "MAKEFOURCC ch0 ch1 ch2 ch3 =
     of_nat ch0 OR push_bit 8 (of_nat ch1) OR push_bit 16 (of_nat ch2) OR push_bit 24 (of_nat ch3)"

definition AMD_AlphaToCoverageEnable :: "32 word" where
  "AMD_AlphaToCoverageEnable = MAKEFOURCC 0x41 0x32 0x4D 0x31"

definition AMD_AlphaToCoverageDisable :: "32 word" where
  "AMD_AlphaToCoverageDisable = MAKEFOURCC 0x41 0x32 0x4D 0x30"

definition RESZ :: "32 word" where
  "RESZ = 0x7fa05000"

definition NV_AlphaToCoverageEnable :: "32 word" where
  "NV_AlphaToCoverageEnable = MAKEFOURCC 0x41 0x54 0x4F 0x43"

definition NV_AlphaToCoverageDisable :: "32 word" where
  "NV_AlphaToCoverageDisable = 0"

datatype D3D9DeviceFlag =
    DirtyFramebuffer
  | DirtyClipPlanes
  | DirtyDepthStencilState
  | DirtyBlendState
  | DirtyRasterizerState
  | DirtyAlphaTestState
  | DirtyMultiSampleState
  | DirtyViewportScissor
  | DirtyFFVertexShader
  | DirtyFFPixelData
  | DirtyFFViewport
  | ValidSampleMask

text \<open>
  A surface with the fields of its texture description that the modelled functions
  read; \<open>surf_id\<close> stands for the object's address.
\<close>

record D3D9Surface =
  surf_id :: nat
  surf_image :: resource_id
  MultiSample :: nat
  Width :: "32 word"
  Height :: "32 word"

record D3DVIEWPORT9 =
  vp_X :: "32 word"
  vp_Y :: "32 word"
  vp_Width :: "32 word"
  vp_Height :: "32 word"
  vp_MinZ :: rat
  vp_MaxZ :: rat

record RECT =
  rect_left :: "32 word"
  rect_top :: "32 word"
  rect_right :: "32 word"
  rect_bottom :: "32 word"

text \<open>
  A state block that records. Modelled from the spec: the state block class is not
  part of the excerpt. The specification says that between \<^verbatim>\<open>BeginStateBlock\<close> and
  \<^verbatim>\<open>EndStateBlock\<close> each mutator is rerouted to a recorder that stores the mutation
  into the block instead of modifying the device state.
\<close>

record D3D9StateBlock =
  sb_IsApplying :: bool
  sb_renderStates :: "(nat \<times> 32 word) list"

definition D3D9StateBlock_SetRenderState ::
  "nat \<Rightarrow> 32 word \<Rightarrow> D3D9StateBlock \<Rightarrow> HRESULT \<times> D3D9StateBlock" where
  "D3D9StateBlock_SetRenderState State Value sb =
     (D3D_OK, sb\<lparr>sb_renderStates := sb_renderStates sb @ [(State, Value)]\<rparr>)"

text \<open>
  The device. \<open>renderStates\<close> is the array \<^verbatim>\<open>m_state.renderStates\<close> of 256 values;
  every access below is behind the range test of its function. \<open>renderTargets\<close> are
  the slots \<^verbatim>\<open>m_state.renderTargets\<close>. \<^verbatim>\<open>IsAlphaToCoverageEnabled\<close> is declared in a
  header that is not part of the excerpt: \<open>atoc_enabled\<close> is what it returns for the
  two alpha-to-coverage members and the render states.
\<close>

record D3D9DeviceEx = cs_state +
  renderStates :: "nat \<Rightarrow> 32 word"
  m_flags :: "D3D9DeviceFlag set"
  m_amdATOC :: bool
  m_nvATOC :: bool
  atoc_enabled :: "bool \<Rightarrow> bool \<Rightarrow> (nat \<Rightarrow> 32 word) \<Rightarrow> bool"
  m_recorder :: "D3D9StateBlock option"
  renderTargets :: "nat \<Rightarrow> D3D9Surface option"
  depthStencil :: "D3D9Surface option"
  texture0 :: "D3D9Surface option"
  viewport :: D3DVIEWPORT9
  scissorRect :: RECT

definition IsAlphaToCoverageEnabled :: "D3D9DeviceEx \<Rightarrow> bool" where
  "IsAlphaToCoverageEnabled s = atoc_enabled s (m_amdATOC s) (m_nvATOC s) (renderStates s)"

definition flags_set :: "D3D9DeviceFlag \<Rightarrow> D3D9DeviceEx \<Rightarrow> D3D9DeviceEx" where
  "flags_set f s = s\<lparr>m_flags := insert f (m_flags s)\<rparr>"

definition flags_clr :: "D3D9DeviceFlag \<Rightarrow> D3D9DeviceEx \<Rightarrow> D3D9DeviceEx" where
  "flags_clr f s = s\<lparr>m_flags := m_flags s - {f}\<rparr>"

definition flags_test :: "D3D9DeviceFlag \<Rightarrow> D3D9DeviceEx \<Rightarrow> bool" where
  "flags_test f s = (f \<in> m_flags s)"

definition ShouldRecord :: "D3D9DeviceEx \<Rightarrow> bool" where
  "ShouldRecord s = (case m_recorder s of None \<Rightarrow> False | Some sb \<Rightarrow> \<not> sb_IsApplying sb)"

text \<open>
  The functions that bind a state at once. The conversions of the values to floating
  point happen on the way to the worker; the commands carry the render state itself.
\<close>

definition BindBlendFactor :: "D3D9DeviceEx \<Rightarrow> D3D9DeviceEx" where
  "BindBlendFactor s = EmitCs (setBlendConstants (renderStates s D3DRS_BLENDFACTOR)) s"

definition BindDepthStencilRefrence :: "D3D9DeviceEx \<Rightarrow> D3D9DeviceEx" where
  "BindDepthStencilRefrence s = EmitCs (setStencilReference (renderStates s D3DRS_STENCILREF)) s"

definition UpdatePushConstant_AlphaRef :: "D3D9DeviceEx \<Rightarrow> D3D9DeviceEx" where
  "UpdatePushConstant_AlphaRef s = EmitCs (pushConstants_alphaRef (renderStates s D3DRS_ALPHAREF)) s"

text \<open>
  \<^verbatim>\<open>D3D9DeviceEx::ResolveZ\<close>: nothing happens without a depth-stencil surface and
  a texture in stage 0, or when that texture is multisampled; otherwise one copy
  command is emitted.
\<close>

definition ResolveZ :: "D3D9DeviceEx \<Rightarrow> D3D9DeviceEx" where
  "ResolveZ s =
     (case (depthStencil s, texture0 s) of
        (Some src, Some dst) \<Rightarrow>
          if MultiSample dst > D3DMULTISAMPLE_NONMASKABLE then s
          else EmitCs resolveZ s
      | _ \<Rightarrow> s)"

text \<open>
  \<^verbatim>\<open>D3D9DeviceEx::BindMultiSampleState\<close>.
\<close>

definition BindMultiSampleState :: "D3D9DeviceEx \<Rightarrow> D3D9DeviceEx" where
  "BindMultiSampleState s =
     (let s1 = flags_clr DirtyMultiSampleState s;
          sampleMask = (if flags_test ValidSampleMask s1
                        then renderStates s1 D3DRS_MULTISAMPLEMASK
                        else 0xffffffff);
          enableAlphaToCoverage = IsAlphaToCoverageEnabled s1
      in EmitCs (setMultisampleState sampleMask enableAlphaToCoverage) s1)"

text \<open>The step of \<^verbatim>\<open>PrepareDraw\<close> that deals with the multisample state.\<close>

definition PrepareDraw_MultiSample :: "D3D9DeviceEx \<Rightarrow> D3D9DeviceEx" where
  "PrepareDraw_MultiSample s =
     (if flags_test DirtyMultiSampleState s then BindMultiSampleState s else s)"

text \<open>
  The \<^verbatim>\<open>switch\<close> of \<^verbatim>\<open>SetRenderState\<close>, entered after the new value is stored.
  \<open>oldATOC\<close> is the alpha-to-coverage state before the store. The case of
  \<^verbatim>\<open>D3DRS_ALPHATESTENABLE\<close> falls through into that of \<^verbatim>\<open>D3DRS_ALPHAFUNC\<close>; the
  warning of the default case is not modelled.
\<close>

definition SetRenderState_switch :: "nat \<Rightarrow> bool \<Rightarrow> D3D9DeviceEx \<Rightarrow> D3D9DeviceEx" where
  "SetRenderState_switch State oldATOC s =
     (if State \<in> {D3DRS_SEPARATEALPHABLENDENABLE, D3DRS_ALPHABLENDENABLE, D3DRS_BLENDOP,
                   D3DRS_BLENDOPALPHA, D3DRS_DESTBLEND, D3DRS_DESTBLENDALPHA,
                   D3DRS_COLORWRITEENABLE, D3DRS_COLORWRITEENABLE1, D3DRS_COLORWRITEENABLE2,
                   D3DRS_COLORWRITEENABLE3, D3DRS_SRCBLEND, D3DRS_SRCBLENDALPHA}
      then flags_set DirtyBlendState s
      else if State = D3DRS_ALPHATESTENABLE then
        (let newATOC = IsAlphaToCoverageEnabled s;
             s1 = (if oldATOC \<noteq> newATOC then flags_set DirtyMultiSampleState s else s)
         in flags_set DirtyAlphaTestState s1)
      else if State = D3DRS_ALPHAFUNC then flags_set DirtyAlphaTestState s
      else if State = D3DRS_BLENDFACTOR then BindBlendFactor s
      else if State = D3DRS_MULTISAMPLEMASK then
        (if flags_test ValidSampleMask s then flags_set DirtyMultiSampleState s else s)
      else if State \<in> {D3DRS_ZENABLE, D3DRS_ZFUNC, D3DRS_TWOSIDEDSTENCILMODE,
                        D3DRS_ZWRITEENABLE, D3DRS_STENCILENABLE, D3DRS_STENCILFAIL,
                        D3DRS_STENCILZFAIL, D3DRS_STENCILPASS, D3DRS_STENCILFUNC,
                        D3DRS_CCW_STENCILFAIL, D3DRS_CCW_STENCILZFAIL, D3DRS_CCW_STENCILPASS,
                        D3DRS_CCW_STENCILFUNC, D3DRS_STENCILMASK, D3DRS_STENCILWRITEMASK}
      then flags_set DirtyDepthStencilState s
      else if State = D3DRS_STENCILREF then BindDepthStencilRefrence s
      else if State = D3DRS_SCISSORTESTENABLE then flags_set DirtyViewportScissor s
      else if State = D3DRS_SRGBWRITEENABLE then flags_set DirtyFramebuffer s
      else if State \<in> {D3DRS_DEPTHBIAS, D3DRS_SLOPESCALEDEPTHBIAS, D3DRS_CULLMODE,
                        D3DRS_FILLMODE}
      then flags_set DirtyRasterizerState s
      else if State = D3DRS_CLIPPLANEENABLE then flags_set DirtyClipPlanes s
      else if State = D3DRS_ALPHAREF then UpdatePushConstant_AlphaRef s
      else if State = D3DRS_TEXTUREFACTOR then flags_set DirtyFFPixelData s
      else if State \<in> {D3DRS_DIFFUSEMATERIALSOURCE, D3DRS_AMBIENTMATERIALSOURCE,
                        D3DRS_SPECULARMATERIALSOURCE, D3DRS_EMISSIVEMATERIALSOURCE,
                        D3DRS_COLORVERTEX, D3DRS_LIGHTING}
      then flags_set DirtyFFVertexShader s
      else s)"

text \<open>
  \<^verbatim>\<open>D3D9DeviceEx::SetRenderState\<close>. \<open>State\<close> is the 32-bit value of the enumeration;
  a value of \<open>2 ^ 31\<close> or more is above 255 as an unsigned number and below
  \<^verbatim>\<open>D3DRS_ZENABLE\<close> as a signed one, and fails the range test either way.
\<close>

definition D3D9_SetRenderState :: "32 word \<Rightarrow> 32 word \<Rightarrow> D3D9DeviceEx \<Rightarrow> HRESULT \<times> D3D9DeviceEx" where
  "D3D9_SetRenderState State Value s =
     (if unat State > 255 \<or> (unat State < D3DRS_ZENABLE \<and> State \<noteq> 0) then (D3D_OK, s)
      else
      (case (if ShouldRecord s then m_recorder s else None) of
         Some recorder \<Rightarrow>
           (case D3D9StateBlock_SetRenderState (unat State) Value recorder of
              (hr, sb) \<Rightarrow> (hr, s\<lparr>m_recorder := Some sb\<rparr>))
       | None \<Rightarrow>
        (let changed = (renderStates s (unat State) \<noteq> Value) in
         if changed then
           (let oldATOC = IsAlphaToCoverageEnabled s in
            if unat State = D3DRS_POINTSIZE
               \<and> (Value = AMD_AlphaToCoverageEnable \<or> Value = AMD_AlphaToCoverageDisable) then
              (let s1 = s\<lparr>m_amdATOC := (Value = AMD_AlphaToCoverageEnable)\<rparr>;
                   newATOC = IsAlphaToCoverageEnabled s1
               in (D3D_OK, if oldATOC \<noteq> newATOC then flags_set DirtyMultiSampleState s1 else s1))
            else if unat State = D3DRS_POINTSIZE \<and> Value = RESZ then
              (D3D_OK, ResolveZ s)
            else if unat State = D3DRS_ADAPTIVETESS_Y
               \<and> (Value = NV_AlphaToCoverageEnable \<or> Value = NV_AlphaToCoverageDisable) then
              (let s1 = s\<lparr>m_nvATOC := (Value = NV_AlphaToCoverageEnable)\<rparr>;
                   newATOC = IsAlphaToCoverageEnabled s1
               in (D3D_OK, if oldATOC \<noteq> newATOC then flags_set DirtyMultiSampleState s1 else s1))
            else
              (let s1 = s\<lparr>renderStates := (renderStates s)(unat State := Value)\<rparr>
               in (D3D_OK, SetRenderState_switch (unat State) oldATOC s1)))
         else (D3D_OK, s))))"

text \<open>
  \<^verbatim>\<open>D3D9DeviceEx::GetRenderState\<close>. \<open>pValue\<close> is the content of \<^verbatim>\<open>*pValue\<close> before
  the call, \<open>None\<close> for a null pointer; the result holds its content afterwards.
\<close>

definition D3D9_GetRenderState :: "32 word \<Rightarrow> 32 word option \<Rightarrow> D3D9DeviceEx \<Rightarrow> HRESULT \<times> 32 word option" where
  "D3D9_GetRenderState State pValue s =
     (if pValue = None then (D3DERR_INVALIDCALL, pValue)
      else if unat State > 255 \<or> (unat State < D3DRS_ZENABLE \<and> State \<noteq> 0)
      then (D3DERR_INVALIDCALL, pValue)
      else if unat State < D3DRS_ZENABLE \<or> unat State > D3DRS_BLENDOPALPHA
      then (D3D_OK, Some 0)
      else (D3D_OK, Some (renderStates s (unat State))))"

text \<open>
  \<^verbatim>\<open>D3D9DeviceEx::SetRenderTarget\<close>. Two surface pointers are equal when they point to
  the same object. Slot 0 holds a surface once the first test is passed, so the
  \<open>None\<close> branch below is never taken.
\<close>

definition D3D9_SetRenderTarget :: "32 word \<Rightarrow> D3D9Surface option \<Rightarrow> D3D9DeviceEx \<Rightarrow> HRESULT \<times> D3D9DeviceEx" where
  "D3D9_SetRenderTarget RenderTargetIndex pRenderTarget s =
     (if unat RenderTargetIndex \<ge> MaxSimultaneousRenderTargets
         \<or> (pRenderTarget = None \<and> RenderTargetIndex = 0)
      then (D3DERR_INVALIDCALL, s)
      else if map_option surf_id (renderTargets s (unat RenderTargetIndex))
                = map_option surf_id pRenderTarget
      then (D3D_OK, s)
      else
        (let s1 = D3D9_FlushImplicit (RenderTargetIndex = 0) s;
             s2 = flags_set DirtyFramebuffer s1;
             s3 = s2\<lparr>renderTargets := (renderTargets s2)(unat RenderTargetIndex := pRenderTarget)\<rparr>
         in if RenderTargetIndex = 0 then
              (case renderTargets s3 0 of
                 None \<Rightarrow> (D3D_OK, s3)
               | Some desc \<Rightarrow>
                   (let validSampleMask = (MultiSample desc > D3DMULTISAMPLE_NONMASKABLE);
                        s4 = (if validSampleMask \<noteq> flags_test ValidSampleMask s3
                              then flags_set DirtyMultiSampleState
                                     ((if validSampleMask then flags_set ValidSampleMask else id)
                                        (flags_clr ValidSampleMask s3))
                              else s3);
                        s5 = s4\<lparr>viewport := \<lparr>vp_X = 0, vp_Y = 0, vp_Width = Width desc,
                                                vp_Height = Height desc, vp_MinZ = 0, vp_MaxZ = 1\<rparr>,
                                scissorRect := \<lparr>rect_left = 0, rect_top = 0,
                                                 rect_right = Width desc,
                                                 rect_bottom = Height desc\<rparr>\<rparr>
                    in (D3D_OK, flags_set DirtyFFViewport (flags_set DirtyViewportScissor s5))))
            else (D3D_OK, s3)))"

section \<open>Notions used to state the properties of the contexts\<close>

text \<open>
  The command stream of a context: everything handed to the worker so far, followed by
  the commands still in the current chunk.
\<close>

definition cs_stream :: "'a cs_state_scheme \<Rightarrow> cs_cmd list" where
  "cs_stream s = cs_dispatched s @ m_csChunk s"

text \<open>The test at the head of \<^verbatim>\<open>Flush\<close>: there is something to submit.\<close>

definition flush_pending :: "'a cs_state_scheme \<Rightarrow> bool" where
  "flush_pending s = (m_csIsBusy s \<or> m_csChunk s \<noteq> [])"

text \<open>
  The test of \<^verbatim>\<open>FlushImplicit\<close>, on the clock value that the next reading yields; the
  delay is computed in 32 bits as in the code.
\<close>

definition flush_due :: "bool \<Rightarrow> 'a cs_state_scheme \<Rightarrow> bool" where
  "flush_due StrongHint s =
     ((StrongHint \<or> pendingSubmissions s \<le> 6)
      \<and> clock s (clock_reads s) - m_lastFlush s
          \<ge> int (unat (750 + 250 * pendingSubmissions s :: 32 word)) * int (ticks_per_us s))"

text \<open>
  The context after the first two steps of \<^verbatim>\<open>WaitForResource\<close>: the worker has been
  synchronized and the resource has been polled once.
\<close>

definition after_first_poll :: "'a cs_state_scheme \<Rightarrow> 'a cs_state_scheme" where
  "after_first_poll s = (SynchronizeCsThread s)\<lparr>polls := Suc (polls s)\<rparr>"


text \<open>
  The textures for which \<^verbatim>\<open>MapImage\<close> copies the image into the staging buffer at
  the time of the map and clears the caller's \<^verbatim>\<open>DO_NOT_WAIT\<close> flag.
\<close>

definition map_reads_back :: "D3D11_RESOURCE \<Rightarrow> bool" where
  "map_reads_back res =
     (case res of
        BufferResource b \<Rightarrow> False
      | TextureResource t \<Rightarrow>
          tex_MapMode t = D3D11_COMMON_TEXTURE_MAP_MODE_BUFFER
          \<and> tex_Usage t = D3D11_USAGE_STAGING \<and> \<not> tex_CanUpdateMappedBufferEarly t)"

text \<open>The context at the moment the map starts to wait.\<close>

definition before_wait :: "D3D11_RESOURCE \<Rightarrow> nat \<Rightarrow> 'a cs_state_scheme \<Rightarrow> 'a cs_state_scheme" where
  "before_wait res Subresource s =
     (case res of
        BufferResource b \<Rightarrow> s
      | TextureResource t \<Rightarrow>
          if map_reads_back res then UpdateMappedBuffer t Subresource s else s)"


subsection \<open>Example contexts and resources\<close>

text \<open>
  A context with one command in its chunk, a millisecond after its last flush, whose
  resources are reported in use by the first three polls; the same context with an empty
  chunk; and one whose resources stay in use for ever.
\<close>

definition ex_cs :: cs_state where
  "ex_cs = \<lparr>m_csChunk = [other_cmd 1], cs_dispatched = [], cs_synced = 0, chunk_capacity = 8,
            m_csIsBusy = False, m_lastFlush = 0, init_flushes = 0,
            clock = (\<lambda>n. 1000000 + int n), clock_reads = 0, ticks_per_us = 1000,
            pendingSubmissions = 0, inUse = (\<lambda>r n. n < 3), polls = 0,
            allowMapFlagNoWait = True\<rparr>"

definition ex_cs_idle :: cs_state where
  "ex_cs_idle = ex_cs\<lparr>m_csChunk := []\<rparr>"


definition ex_slice1 :: DxvkBufferSliceHandle where
  "ex_slice1 = \<lparr>handle = 11, sl_offset = 0, sl_length = 4096, mapPtr = 0x10000\<rparr>"

definition ex_slice2 :: DxvkBufferSliceHandle where
  "ex_slice2 = \<lparr>handle = 11, sl_offset = 4096, sl_length = 4096, mapPtr = 0x11000\<rparr>"

definition ex_dxvk_buffer :: DxvkBuffer where
  "ex_dxvk_buffer = \<lparr>buffer_id = 5, m_freeSlices = [ex_slice2],
     m_newSlices = (\<lambda>n. \<lparr>handle = 12 + n, sl_offset = 0, sl_length = 4096, mapPtr = 0x20000\<rparr>),
     m_grown = 0, m_physSlice = ex_slice1\<rparr>"

definition ex_buffer :: D3D11Buffer where
  "ex_buffer = \<lparr>buf_MapMode = D3D11_COMMON_BUFFER_MAP_MODE_DIRECT, buf_ByteWidth = 4096,
                m_buffer = ex_dxvk_buffer, m_mapped = ex_slice1\<rparr>"

definition ex_buffer_local :: D3D11Buffer where
  "ex_buffer_local = ex_buffer\<lparr>buf_MapMode := D3D11_COMMON_BUFFER_MAP_MODE_NONE\<rparr>"

definition ex_out :: D3D11_MAPPED_SUBRESOURCE where
  "ex_out = \<lparr>pData = 0x5000, RowPitch = 16, DepthPitch = 16\<rparr>"



text \<open>
  A buffer resource, a device whose view classes refuse buffers, and one whose view
  classes accept everything.
\<close>

definition ex_buffer_desc :: D3D11_COMMON_RESOURCE_DESC where
  "ex_buffer_desc = \<lparr>Dim = D3D11_RESOURCE_DIMENSION_BUFFER, Format = 0, BindFlags = 0x1\<rparr>"

definition ex_view_env :: view_env where
  "ex_view_env =
     \<lparr>GetDescFromResource =
        (\<lambda>r. if Dim r = D3D11_RESOURCE_DIMENSION_BUFFER
              then (E_INVALIDARG, \<lparr>vd_Format = 0, vd_rest = 0\<rparr>)
              else (S_OK, \<lparr>vd_Format = Format r, vd_rest = 0\<rparr>)),
      NormalizeDesc =
        (\<lambda>r d. if Dim r = D3D11_RESOURCE_DIMENSION_BUFFER then (E_INVALIDARG, d) else (S_OK, d)),
      CheckResourceViewCompatibility = (\<lambda>r b f. BindFlags r AND b \<noteq> 0),
      view_constructor = (\<lambda>r d. True)\<rparr>"

definition ex_view_env_lenient :: view_env where
  "ex_view_env_lenient =
     \<lparr>GetDescFromResource = (\<lambda>r. (S_OK, \<lparr>vd_Format = Format r, vd_rest = 0\<rparr>)),
      NormalizeDesc = (\<lambda>r d. (S_OK, d)),
      CheckResourceViewCompatibility = (\<lambda>r b f. True),
      view_constructor = (\<lambda>r d. True)\<rparr>"

section \<open>Notions used to state the properties of the version-9 device\<close>

text \<open>
  The pairs of render state and value that \<^verbatim>\<open>SetRenderState\<close> takes as vendor
  extensions (alpha to coverage and depth resolve) instead of storing the value.
\<close>

definition is_vendor_hack :: "nat \<Rightarrow> 32 word \<Rightarrow> bool" where
  "is_vendor_hack State Value =
     (State = D3DRS_POINTSIZE
        \<and> (Value = AMD_AlphaToCoverageEnable \<or> Value = AMD_AlphaToCoverageDisable \<or> Value = RESZ)
      \<or> State = D3DRS_ADAPTIVETESS_Y
        \<and> (Value = NV_AlphaToCoverageEnable \<or> Value = NV_AlphaToCoverageDisable))"

text \<open>The primary render target is multisampled with a maskable type.\<close>

definition primary_rt_masks :: "D3D9DeviceEx \<Rightarrow> bool" where
  "primary_rt_masks s =
     (case renderTargets s 0 of
        None \<Rightarrow> False
      | Some rt \<Rightarrow> MultiSample rt > D3DMULTISAMPLE_NONMASKABLE)"

text \<open>The sample mask that a draw is to use.\<close>

definition draw_sample_mask :: "D3D9DeviceEx \<Rightarrow> 32 word" where
  "draw_sample_mask s =
     (if primary_rt_masks s then renderStates s D3DRS_MULTISAMPLEMASK else 0xffffffff)"

text \<open>
  The sample mask of the multisample state that is bound once the worker has run a
  command stream: that of the last \<^verbatim>\<open>setMultisampleState\<close> command in it.
\<close>

definition last_sample_mask :: "cs_cmd list \<Rightarrow> 32 word option" where
  "last_sample_mask cs =
     foldl (\<lambda>acc c. case c of setMultisampleState m a \<Rightarrow> Some m | _ \<Rightarrow> acc) None cs"

text \<open>
  The device's bookkeeping of the sample mask is in order: the flag tells whether the
  primary render target is maskable, and the multisample state is either marked dirty
  or bound with the mask a draw is to use.
\<close>

definition multisample_state_ok :: "D3D9DeviceEx \<Rightarrow> bool" where
  "multisample_state_ok s =
     (flags_test ValidSampleMask s = primary_rt_masks s
      \<and> (flags_test DirtyMultiSampleState s
          \<or> last_sample_mask (cs_stream s) = Some (draw_sample_mask s)))"

subsection \<open>Example devices\<close>

text \<open>
  A device without render targets whose point size is 1.0; the same device with its
  multisample state marked dirty; and one whose primary render target has four samples.
\<close>

definition ex_device :: D3D9DeviceEx where
  "ex_device =
     cs_state.extend ex_cs
       \<lparr>renderStates = (\<lambda>k. if k = 154 then 0x3f800000 else if k = 181 then 5 else 0),
         m_flags = {}, m_amdATOC = False, m_nvATOC = False,
         atoc_enabled = (\<lambda>amd nv rs. amd \<or> nv),
         m_recorder = None, renderTargets = (\<lambda>i. None), depthStencil = None, texture0 = None,
         viewport = \<lparr>vp_X = 0, vp_Y = 0, vp_Width = 0, vp_Height = 0, vp_MinZ = 0, vp_MaxZ = 1\<rparr>,
         scissorRect = \<lparr>rect_left = 0, rect_top = 0, rect_right = 0, rect_bottom = 0\<rparr>\<rparr>"

definition ex_surface_ms :: D3D9Surface where
  "ex_surface_ms = \<lparr>surf_id = 3, surf_image = 21, MultiSample = 4, Width = 640, Height = 480\<rparr>"

definition ex_device_dirty :: D3D9DeviceEx where
  "ex_device_dirty = ex_device\<lparr>m_flags := {DirtyMultiSampleState}\<rparr>"

definition ex_device_ms :: D3D9DeviceEx where
  "ex_device_ms =
     ex_device\<lparr>m_flags := {ValidSampleMask, DirtyMultiSampleState},
                renderTargets := (\<lambda>i. if i = 0 then Some ex_surface_ms else None)\<rparr>"

section \<open>Proofs: view format compatibility\<close>

lemma isViewCompatible_loop_eq:
  "isViewCompatible_loop vf f i result = (result \<or> f \<in> set (drop i vf))"
proof (induction vf f i result rule: isViewCompatible_loop.induct)
  case (1 vf f i result)
  show ?case
  proof (cases "i < length vf \<and> \<not> result")
    case True
    then have d: "drop i vf = vf ! i # drop (Suc i) vf"
      by (simp add: Cons_nth_drop_Suc)
    from True have "isViewCompatible_loop vf f i result =
        isViewCompatible_loop vf f (Suc i) (result \<or> vf ! i = f)"
      by (subst isViewCompatible_loop.simps) simp
    also have "\<dots> = ((result \<or> vf ! i = f) \<or> f \<in> set (drop (Suc i) vf))"
      using True by (rule "1.IH")
    finally show ?thesis using d by auto
  next
    case False
    then have "isViewCompatible_loop vf f i result = result"
      by (subst isViewCompatible_loop.simps) auto
    with False show ?thesis by auto
  qed
qed

text \<open>
  C10. \<^verbatim>\<open>isViewCompatible(f)\<close> is true when \<open>f\<close> is the image's own creation
  format, whether or not \<open>f\<close> is in the list of view formats, and for every other
  \<open>f\<close> it is true exactly when \<open>f\<close> occurs in that list: the result is the
  disjunction of the two tests.
\<close>

theorem isViewCompatible_own_format_or_listed:
  "isViewCompatible img f = (f = m_info_format img \<or> f \<in> set (m_viewFormats img))"
  by (auto simp: isViewCompatible_def isViewCompatible_loop_eq)

section \<open>Proofs: memory chunks\<close>

subsection \<open>64-bit arithmetic without wrap-around\<close>







subsection \<open>The coalescing loop on intervals\<close>









subsection \<open>The 64-bit loop follows the interval loop\<close>







subsection \<open>Allocation keeps the invariant\<close>



lemma lo_rec [simp]: "lo \<lparr>offset = a, slength = b\<rparr> = unat a"
  by (simp add: lo_def)

lemma hi_rec [simp]: "hi \<lparr>offset = a, slength = b\<rparr> = unat a + unat b"
  by (simp add: hi_def)









lemma freeBytes_append [simp]: "freeBytes (xs @ ys) = freeBytes xs + freeBytes ys"
  by (simp add: freeBytes_def)



subsection \<open>Freeing keeps the invariant\<close>








subsection \<open>Allocation from a memory type\<close>






lemma add_memoryUsed_simps [simp]:
  "vk_calls (add_memoryUsed n s) = vk_calls s"
  "chunks (a_type (add_memoryUsed n s)) = chunks (a_type s)"
  by (simp_all add: add_memoryUsed_def)

lemma set_chunks_simps [simp]:
  "vk_calls (set_chunks cs s) = vk_calls s"
  "chunks (a_type (set_chunks cs s)) = cs"
  "heap (a_type (set_chunks cs s)) = heap (a_type s)"
  "memTypeId (a_type (set_chunks cs s)) = memTypeId (a_type s)"
  by (simp_all add: set_chunks_def)






section \<open>Proofs: command stream, flushes and maps\<close>

lemma EmitCs_stream [simp]: "cs_stream (EmitCs cmd s) = cs_stream s @ [cmd]"
  by (simp add: EmitCs_def EmitCsChunk_def cs_stream_def)

lemma EmitCs_pending [simp]: "flush_pending (EmitCs cmd s)"
  by (simp add: EmitCs_def EmitCsChunk_def flush_pending_def)

lemma EmitCs_env [simp]:
  "polls (EmitCs cmd s) = polls s" "inUse (EmitCs cmd s) = inUse s"
  "cs_synced (EmitCs cmd s) = cs_synced s" "init_flushes (EmitCs cmd s) = init_flushes s"
  "clock (EmitCs cmd s) = clock s" "clock_reads (EmitCs cmd s) = clock_reads s"
  "ticks_per_us (EmitCs cmd s) = ticks_per_us s" "m_lastFlush (EmitCs cmd s) = m_lastFlush s"
  "pendingSubmissions (EmitCs cmd s) = pendingSubmissions s"
  "allowMapFlagNoWait (EmitCs cmd s) = allowMapFlagNoWait s"
  by (simp_all add: EmitCs_def EmitCsChunk_def)

lemma FlushCsChunk_stream [simp]: "cs_stream (FlushCsChunk s) = cs_stream s"
  by (simp add: FlushCsChunk_def EmitCsChunk_def cs_stream_def)

lemma FlushCsChunk_pending [simp]: "flush_pending (FlushCsChunk s) = flush_pending s"
  by (auto simp: FlushCsChunk_def EmitCsChunk_def flush_pending_def)

lemma FlushCsChunk_chunk [simp]: "m_csChunk (FlushCsChunk s) = []"
  by (simp add: FlushCsChunk_def EmitCsChunk_def)

lemma FlushCsChunk_env [simp]:
  "polls (FlushCsChunk s) = polls s" "inUse (FlushCsChunk s) = inUse s"
  "cs_synced (FlushCsChunk s) = cs_synced s" "init_flushes (FlushCsChunk s) = init_flushes s"
  "clock (FlushCsChunk s) = clock s" "clock_reads (FlushCsChunk s) = clock_reads s"
  "ticks_per_us (FlushCsChunk s) = ticks_per_us s" "m_lastFlush (FlushCsChunk s) = m_lastFlush s"
  "pendingSubmissions (FlushCsChunk s) = pendingSubmissions s"
  "allowMapFlagNoWait (FlushCsChunk s) = allowMapFlagNoWait s"
  by (simp_all add: FlushCsChunk_def EmitCsChunk_def)

lemma SynchronizeCsThread_stream [simp]: "cs_stream (SynchronizeCsThread s) = cs_stream s"
  by (simp add: SynchronizeCsThread_def Let_def cs_stream_def FlushCsChunk_def EmitCsChunk_def)

lemma SynchronizeCsThread_pending [simp]:
  "flush_pending (SynchronizeCsThread s) = flush_pending s"
  by (auto simp: SynchronizeCsThread_def Let_def FlushCsChunk_def EmitCsChunk_def flush_pending_def)

lemma SynchronizeCsThread_env [simp]:
  "polls (SynchronizeCsThread s) = polls s" "inUse (SynchronizeCsThread s) = inUse s"
  "init_flushes (SynchronizeCsThread s) = init_flushes s"
  "clock (SynchronizeCsThread s) = clock s" "clock_reads (SynchronizeCsThread s) = clock_reads s"
  "ticks_per_us (SynchronizeCsThread s) = ticks_per_us s"
  "m_lastFlush (SynchronizeCsThread s) = m_lastFlush s"
  "pendingSubmissions (SynchronizeCsThread s) = pendingSubmissions s"
  "allowMapFlagNoWait (SynchronizeCsThread s) = allowMapFlagNoWait s"
  by (simp_all add: SynchronizeCsThread_def Let_def)

lemma SynchronizeCsThread_synced [simp]:
  "cs_synced (SynchronizeCsThread s) = length (cs_stream s)"
  "m_csChunk (SynchronizeCsThread s) = []"
  by (simp_all add: SynchronizeCsThread_def Let_def FlushCsChunk_def EmitCsChunk_def cs_stream_def)

lemma D3D11_Flush_stream:
  "cs_stream (D3D11_Flush s) =
     (if flush_pending s then cs_stream s @ [flushCommandList] else cs_stream s)"
  by (simp add: D3D11_Flush_def Let_def clock_now_def flush_pending_def cs_stream_def
        EmitCs_def FlushCsChunk_def EmitCsChunk_def)

lemma D3D11_Flush_env [simp]:
  "polls (D3D11_Flush s) = polls s" "inUse (D3D11_Flush s) = inUse s"
  "init_flushes (D3D11_Flush s) = Suc (init_flushes s)"
  "pendingSubmissions (D3D11_Flush s) = pendingSubmissions s"
  "allowMapFlagNoWait (D3D11_Flush s) = allowMapFlagNoWait s"
  "cs_synced (D3D11_Flush s) = cs_synced s"
  by (simp_all add: D3D11_Flush_def Let_def clock_now_def)

lemma D3D11_Flush_idle [simp]: "\<not> flush_pending (D3D11_Flush s)"
  by (simp add: D3D11_Flush_def Let_def clock_now_def flush_pending_def)

lemma D3D9_Flush_eq: "D3D9_Flush s = D3D11_Flush s"
  by (simp add: D3D9_Flush_def D3D11_Flush_def)

lemma D3D11_FlushImplicit_alt:
  "D3D11_FlushImplicit StrongHint s =
     (if flush_due StrongHint s then D3D11_Flush (s\<lparr>clock_reads := Suc (clock_reads s)\<rparr>)
      else if StrongHint \<or> pendingSubmissions s \<le> 6 then s\<lparr>clock_reads := Suc (clock_reads s)\<rparr>
      else s)"
  by (simp add: D3D11_FlushImplicit_def flush_due_def Let_def clock_now_def
        MinFlushIntervalUs_def IncFlushIntervalUs_def MaxPendingSubmits_def)

lemma D3D9_FlushImplicit_eq: "D3D9_FlushImplicit StrongHint s = D3D11_FlushImplicit StrongHint s"
  by (simp add: D3D9_FlushImplicit_def D3D11_FlushImplicit_def D3D9_Flush_eq Let_def clock_now_def
        MinFlushIntervalUs_def IncFlushIntervalUs_def MaxPendingSubmits_def
        D3D9_MinFlushIntervalUs_def D3D9_IncFlushIntervalUs_def D3D9_MaxPendingSubmits_def)

lemma cs_stream_clock_reads [simp]: "cs_stream (s\<lparr>clock_reads := n\<rparr>) = cs_stream s"
  by (simp add: cs_stream_def)

lemma flush_pending_clock_reads [simp]: "flush_pending (s\<lparr>clock_reads := n\<rparr>) = flush_pending s"
  by (simp add: flush_pending_def)

lemma D3D11_FlushImplicit_stream:
  "cs_stream (D3D11_FlushImplicit StrongHint s) =
     (if flush_due StrongHint s \<and> flush_pending s
      then cs_stream s @ [flushCommandList] else cs_stream s)"
  by (simp add: D3D11_FlushImplicit_alt D3D11_Flush_stream)

lemma D3D11_FlushImplicit_env [simp]:
  "polls (D3D11_FlushImplicit h s) = polls s" "inUse (D3D11_FlushImplicit h s) = inUse s"
  "pendingSubmissions (D3D11_FlushImplicit h s) = pendingSubmissions s"
  "allowMapFlagNoWait (D3D11_FlushImplicit h s) = allowMapFlagNoWait s"
  "cs_synced (D3D11_FlushImplicit h s) = cs_synced s"
  by (simp_all add: D3D11_FlushImplicit_alt)

lemma D3D11_FlushImplicit_init:
  "init_flushes (D3D11_FlushImplicit h s) =
     (if flush_due h s then Suc (init_flushes s) else init_flushes s)"
  by (simp add: D3D11_FlushImplicit_alt)

lemma delay_no_wrap:
  fixes pending :: "32 word"
  assumes "unat pending \<le> 17179866"
  shows "unat (750 + 250 * pending) = 750 + 250 * unat pending"
proof -
  have m: "unat (250 * pending) = 250 * unat pending"
    using assms by (simp add: unat_word_ariths)
  have "unat (750 + 250 * pending) = unat (750 :: 32 word) + unat (250 * pending)"
    using assms m by (subst unat_add_lem [THEN iffD1]) simp_all
  with m show ?thesis by simp
qed

lemma FAILED_simps [simp]:
  "FAILED E_INVALIDARG" "\<not> FAILED S_OK" "\<not> FAILED S_FALSE" "FAILED DXGI_ERROR_WAS_STILL_DRAWING"
  by (simp_all add: FAILED_def E_INVALIDARG_def S_OK_def S_FALSE_def DXGI_ERROR_WAS_STILL_DRAWING_def)

lemma HRESULT_distinct [simp]:
  "E_INVALIDARG \<noteq> S_OK" "S_FALSE \<noteq> S_OK" "DXGI_ERROR_WAS_STILL_DRAWING \<noteq> S_OK"
  "S_OK \<noteq> E_INVALIDARG" "S_OK \<noteq> S_FALSE" "S_OK \<noteq> DXGI_ERROR_WAS_STILL_DRAWING"
  "E_INVALIDARG \<noteq> DXGI_ERROR_WAS_STILL_DRAWING" "DXGI_ERROR_WAS_STILL_DRAWING \<noteq> E_INVALIDARG"
  by (simp_all add: E_INVALIDARG_def S_OK_def S_FALSE_def DXGI_ERROR_WAS_STILL_DRAWING_def)

text \<open>
  C2, the case it misses. A context with an empty chunk that is not busy: the
  pending-submission count is at most 6 and more than 750 microseconds have passed since
  the last flush, yet a call of \<^verbatim>\<open>FlushImplicit(TRUE)\<close> adds no
  \<^verbatim>\<open>flushCommandList\<close> to the command stream, in either context.
\<close>

theorem FlushImplicit_idle_counterexample:
  "pendingSubmissions ex_cs_idle \<le> 6
   \<and> clock ex_cs_idle (clock_reads ex_cs_idle) - m_lastFlush ex_cs_idle
       \<ge> (750 + 250 * int (unat (pendingSubmissions ex_cs_idle))) * int (ticks_per_us ex_cs_idle)
   \<and> cs_stream (D3D11_FlushImplicit True ex_cs_idle) = cs_stream ex_cs_idle
   \<and> cs_stream (D3D9_FlushImplicit True ex_cs_idle) = cs_stream ex_cs_idle
   \<and> flushCommandList \<notin> set (cs_stream (D3D11_FlushImplicit True ex_cs_idle))"
proof -
  have np: "\<not> flush_pending ex_cs_idle"
    by (simp add: flush_pending_def ex_cs_idle_def ex_cs_def)
  have e: "cs_stream ex_cs_idle = []"
    by (simp add: cs_stream_def ex_cs_idle_def ex_cs_def)
  have 1: "cs_stream (D3D11_FlushImplicit True ex_cs_idle) = cs_stream ex_cs_idle"
    using np by (simp add: D3D11_FlushImplicit_stream)
  have 2: "cs_stream (D3D9_FlushImplicit True ex_cs_idle) = cs_stream ex_cs_idle"
    using 1 by (simp add: D3D9_FlushImplicit_eq)
  have 3: "pendingSubmissions ex_cs_idle \<le> 6"
    by (simp add: ex_cs_idle_def ex_cs_def)
  have 4: "clock ex_cs_idle (clock_reads ex_cs_idle) - m_lastFlush ex_cs_idle
       \<ge> (750 + 250 * int (unat (pendingSubmissions ex_cs_idle))) * int (ticks_per_us ex_cs_idle)"
    by (simp add: ex_cs_idle_def ex_cs_def)
  have 5: "flushCommandList \<notin> set (cs_stream (D3D11_FlushImplicit True ex_cs_idle))"
    using 1 e by simp
  show ?thesis by (intro conjI 1 2 3 4 5)
qed

text \<open>
  C2 (as amended). In both contexts \<^verbatim>\<open>FlushImplicit\<close> calls \<^verbatim>\<open>Flush\<close>, which
  flushes the initialization context, exactly when the test \<open>flush_due\<close> holds, and it
  appends \<^verbatim>\<open>flushCommandList\<close> to the command stream exactly when in addition the
  context is busy or its chunk holds a command; otherwise the stream is unchanged. As
  long as the 32-bit delay does not wrap around (at most 17179866 pending submissions),
  \<open>flush_due\<close> is the condition of the specification: the hint is strong or at most 6
  submissions are pending, and at least 750 + 250 * pending microseconds have passed
  since the last flush.
\<close>

theorem FlushImplicit_policy:
  "cs_stream (D3D11_FlushImplicit StrongHint s) =
     (if flush_due StrongHint s \<and> flush_pending s
      then cs_stream s @ [flushCommandList] else cs_stream s)
   \<and> init_flushes (D3D11_FlushImplicit StrongHint s) =
     (if flush_due StrongHint s then Suc (init_flushes s) else init_flushes s)
   \<and> cs_stream (D3D9_FlushImplicit StrongHint s) =
     (if flush_due StrongHint s \<and> flush_pending s
      then cs_stream s @ [flushCommandList] else cs_stream s)
   \<and> init_flushes (D3D9_FlushImplicit StrongHint s) =
     (if flush_due StrongHint s then Suc (init_flushes s) else init_flushes s)
   \<and> (unat (pendingSubmissions s) \<le> 17179866 \<longrightarrow>
       flush_due StrongHint s =
         ((StrongHint \<or> unat (pendingSubmissions s) \<le> 6)
          \<and> clock s (clock_reads s) - m_lastFlush s
              \<ge> (750 + 250 * int (unat (pendingSubmissions s))) * int (ticks_per_us s)))"
proof (intro conjI impI)
  show "cs_stream (D3D11_FlushImplicit StrongHint s) =
     (if flush_due StrongHint s \<and> flush_pending s
      then cs_stream s @ [flushCommandList] else cs_stream s)"
    by (rule D3D11_FlushImplicit_stream)
  show "init_flushes (D3D11_FlushImplicit StrongHint s) =
     (if flush_due StrongHint s then Suc (init_flushes s) else init_flushes s)"
    by (rule D3D11_FlushImplicit_init)
  show "cs_stream (D3D9_FlushImplicit StrongHint s) =
     (if flush_due StrongHint s \<and> flush_pending s
      then cs_stream s @ [flushCommandList] else cs_stream s)"
    unfolding D3D9_FlushImplicit_eq by (rule D3D11_FlushImplicit_stream)
  show "init_flushes (D3D9_FlushImplicit StrongHint s) =
     (if flush_due StrongHint s then Suc (init_flushes s) else init_flushes s)"
    unfolding D3D9_FlushImplicit_eq by (rule D3D11_FlushImplicit_init)
next
  assume "unat (pendingSubmissions s) \<le> 17179866"
  then have d: "unat (750 + 250 * pendingSubmissions s) = 750 + 250 * unat (pendingSubmissions s)"
    by (rule delay_no_wrap)
  have six: "(pendingSubmissions s \<le> 6) = (unat (pendingSubmissions s) \<le> 6)"
    by (simp add: word_le_nat_alt)
  show "flush_due StrongHint s =
         ((StrongHint \<or> unat (pendingSubmissions s) \<le> 6)
          \<and> clock s (clock_reads s) - m_lastFlush s
              \<ge> (750 + 250 * int (unat (pendingSubmissions s))) * int (ticks_per_us s))"
    unfolding flush_due_def d six by simp
qed

theorem FlushImplicit_policy_witness:
  "unat (pendingSubmissions ex_cs) \<le> 17179866
   \<and> flush_due True ex_cs
   \<and> cs_stream (D3D11_FlushImplicit True ex_cs) = [other_cmd 1, flushCommandList]
   \<and> cs_stream (D3D9_FlushImplicit False ex_cs) = [other_cmd 1, flushCommandList]"
proof -
  have p: "unat (pendingSubmissions ex_cs) \<le> 17179866" by (simp add: ex_cs_def)
  have c: "(True \<or> unat (pendingSubmissions ex_cs) \<le> 6)
          \<and> clock ex_cs (clock_reads ex_cs) - m_lastFlush ex_cs
              \<ge> (750 + 250 * int (unat (pendingSubmissions ex_cs))) * int (ticks_per_us ex_cs)"
    by (simp add: ex_cs_def)
  have c': "(False \<or> unat (pendingSubmissions ex_cs) \<le> 6)
          \<and> clock ex_cs (clock_reads ex_cs) - m_lastFlush ex_cs
              \<ge> (750 + 250 * int (unat (pendingSubmissions ex_cs))) * int (ticks_per_us ex_cs)"
    by (simp add: ex_cs_def)
  have fp: "flush_pending ex_cs" by (simp add: flush_pending_def ex_cs_def)
  have st: "cs_stream ex_cs = [other_cmd 1]" by (simp add: cs_stream_def ex_cs_def)
  note t = FlushImplicit_policy [of True ex_cs]
  note t' = FlushImplicit_policy [of False ex_cs]
  from t p c have d: "flush_due True ex_cs" by blast
  from t' p c' have d': "flush_due False ex_cs" by blast
  from t d fp st have 1: "cs_stream (D3D11_FlushImplicit True ex_cs) = [other_cmd 1, flushCommandList]"
    by simp
  from t' d' fp st have 2: "cs_stream (D3D9_FlushImplicit False ex_cs) = [other_cmd 1, flushCommandList]"
    by simp
  show ?thesis using p d 1 2 by blast
qed

lemma allocSlice_id [simp]: "buffer_id (snd (allocSlice b)) = buffer_id b"
  by (simp add: allocSlice_def split: list.splits)

text \<open>
  C1. Mapping a buffer whose map mode is not \<^verbatim>\<open>NONE\<close> with \<^verbatim>\<open>WRITE_DISCARD\<close>
  returns \<^verbatim>\<open>S_OK\<close> without polling the resource, synchronizing with the worker or
  flushing; the slice is the next one of the rename pool (a new one when the pool is
  empty) and becomes the buffer's current slice; one \<^verbatim>\<open>invalidateBuffer\<close> command
  naming the buffer and that slice is appended to the command stream; the data pointer
  is the slice's host pointer and both pitches are the buffer's byte width.
\<close>

theorem MapBuffer_write_discard:
  fixes s :: "'a cs_state_scheme"
  assumes "buf_MapMode b \<noteq> D3D11_COMMON_BUFFER_MAP_MODE_NONE"
  defines "sl \<equiv> fst (allocSlice (m_buffer b))"
  defines "b' \<equiv> b\<lparr>m_buffer := snd (allocSlice (m_buffer b)), m_mapped := sl\<rparr>"
  defines "s' \<equiv> EmitCs (invalidateBuffer (buffer_id (m_buffer b)) sl) s"
  defines "mapped \<equiv> \<lparr>pData = mapPtr sl, RowPitch = buf_ByteWidth b, DepthPitch = buf_ByteWidth b\<rparr>"
  shows "D3D11_MapBuffer b D3D11_MAP_WRITE_DISCARD MapFlags out s = Some (S_OK, mapped, b', s')
    \<and> D3D11_Map (Some (BufferResource b)) Subresource D3D11_MAP_WRITE_DISCARD MapFlags (Some out) s
        = Some (S_OK, Some mapped, Some (BufferResource b'), s')
    \<and> sl = (case m_freeSlices (m_buffer b) of x # xs \<Rightarrow> x
             | [] \<Rightarrow> m_newSlices (m_buffer b) (m_grown (m_buffer b)))
    \<and> GetMappedSlice b' = sl
    \<and> cs_stream s' = cs_stream s @ [invalidateBuffer (buffer_id (m_buffer b)) sl]
    \<and> polls s' = polls s \<and> cs_synced s' = cs_synced s \<and> init_flushes s' = init_flushes s"
proof -
  have d: "DiscardSlice b = (sl, b')"
    by (simp add: DiscardSlice_def sl_def b'_def split: prod.splits)
  have id: "buffer_id (m_buffer b') = buffer_id (m_buffer b)"
    by (simp add: b'_def)
  have w: "buf_ByteWidth b' = buf_ByteWidth b" by (simp add: b'_def)
  have 1: "D3D11_MapBuffer b D3D11_MAP_WRITE_DISCARD MapFlags out s = Some (S_OK, mapped, b', s')"
    using assms(1) d id w by (simp add: D3D11_MapBuffer_def mapped_def s'_def)
  have 2: "D3D11_Map (Some (BufferResource b)) Subresource D3D11_MAP_WRITE_DISCARD MapFlags (Some out) s
        = Some (S_OK, Some mapped, Some (BufferResource b'), s')"
    using 1 by (simp add: D3D11_Map_def)
  have 3: "sl = (case m_freeSlices (m_buffer b) of x # xs \<Rightarrow> x
             | [] \<Rightarrow> m_newSlices (m_buffer b) (m_grown (m_buffer b)))"
    by (simp add: sl_def allocSlice_def split: list.splits)
  have 4: "GetMappedSlice b' = sl" by (simp add: GetMappedSlice_def b'_def)
  show ?thesis using 1 2 3 4 by (simp add: s'_def)
qed

theorem MapBuffer_write_discard_witness:
  "buf_MapMode ex_buffer \<noteq> D3D11_COMMON_BUFFER_MAP_MODE_NONE
   \<and> map_option fst (D3D11_MapBuffer ex_buffer D3D11_MAP_WRITE_DISCARD 0 ex_out ex_cs) = Some S_OK
   \<and> map_option (fst \<circ> snd) (D3D11_MapBuffer ex_buffer D3D11_MAP_WRITE_DISCARD 0 ex_out ex_cs)
       = Some \<lparr>pData = 0x11000, RowPitch = 4096, DepthPitch = 4096\<rparr>
   \<and> map_option (cs_stream \<circ> snd \<circ> snd \<circ> snd)
        (D3D11_MapBuffer ex_buffer D3D11_MAP_WRITE_DISCARD 0 ex_out ex_cs)
       = Some [other_cmd 1, invalidateBuffer 5 ex_slice2]"
proof -
  have m: "buf_MapMode ex_buffer \<noteq> D3D11_COMMON_BUFFER_MAP_MODE_NONE"
    by (simp add: ex_buffer_def)
  have a: "fst (allocSlice (m_buffer ex_buffer)) = ex_slice2"
    by (simp add: allocSlice_def ex_buffer_def ex_dxvk_buffer_def)
  have i: "buffer_id (m_buffer ex_buffer) = 5" "buf_ByteWidth ex_buffer = 4096"
    by (simp_all add: ex_buffer_def ex_dxvk_buffer_def)
  have p: "mapPtr ex_slice2 = 0x11000" by (simp add: ex_slice2_def)
  have st: "cs_stream ex_cs = [other_cmd 1]" by (simp add: cs_stream_def ex_cs_def)
  from MapBuffer_write_discard [OF m, of 0 ex_out ex_cs 0]
  have "D3D11_MapBuffer ex_buffer D3D11_MAP_WRITE_DISCARD 0 ex_out ex_cs
      = Some (S_OK, \<lparr>pData = 0x11000, RowPitch = 4096, DepthPitch = 4096\<rparr>,
              ex_buffer\<lparr>m_buffer := snd (allocSlice (m_buffer ex_buffer)), m_mapped := ex_slice2\<rparr>,
              EmitCs (invalidateBuffer 5 ex_slice2) ex_cs)"
    unfolding a i p by blast
  then show ?thesis using m st by simp
qed

text \<open>
  C9, the case it misses. \<^verbatim>\<open>Map\<close> with a null resource and a non-null output
  structure fails with \<^verbatim>\<open>E_INVALIDARG\<close> and leaves the structure as it was.
\<close>

theorem Map_null_resource_counterexample:
  "D3D11_Map None 0 D3D11_MAP_READ 0 (Some ex_out) ex_cs = Some (E_INVALIDARG, Some ex_out, None, ex_cs)
   \<and> FAILED E_INVALIDARG
   \<and> ex_out \<noteq> D3D11_MAPPED_SUBRESOURCE_zero"
  by (simp add: D3D11_Map_def ex_out_def D3D11_MAPPED_SUBRESOURCE_zero_def)

text \<open>
  C9 (as amended). Whenever \<^verbatim>\<open>Map\<close> is called with a resource and an output
  structure and returns a failure code, the structure holds only zeroes afterwards. With
  a null resource the call returns \<^verbatim>\<open>E_INVALIDARG\<close> and touches nothing.
\<close>

theorem Map_failure_zeroes_output:
  "(D3D11_Map (Some res) Subresource MapType MapFlags (Some out) s = Some (hr, out', res', s')
      \<and> FAILED hr \<longrightarrow> out' = Some D3D11_MAPPED_SUBRESOURCE_zero)
   \<and> D3D11_Map None Subresource MapType MapFlags pMappedResource s
       = Some (E_INVALIDARG, pMappedResource, None, s)"
  by (auto simp: D3D11_Map_def split: option.splits D3D11_RESOURCE.splits prod.splits)

theorem Map_failure_zeroes_output_witness:
  "D3D11_Map (Some (BufferResource ex_buffer_local)) 0 D3D11_MAP_READ 0 (Some ex_out) ex_cs
     = Some (E_INVALIDARG, Some D3D11_MAPPED_SUBRESOURCE_zero,
             Some (BufferResource ex_buffer_local), ex_cs)
   \<and> FAILED E_INVALIDARG"
proof -
  have r: "D3D11_Map (Some (BufferResource ex_buffer_local)) 0 D3D11_MAP_READ 0 (Some ex_out) ex_cs
     = Some (E_INVALIDARG, Some D3D11_MAPPED_SUBRESOURCE_zero,
             Some (BufferResource ex_buffer_local), ex_cs)"
    by (simp add: D3D11_Map_def D3D11_MapBuffer_def ex_buffer_local_def)
  from Map_failure_zeroes_output [of "BufferResource ex_buffer_local" 0 D3D11_MAP_READ 0 ex_out ex_cs
      E_INVALIDARG "Some D3D11_MAPPED_SUBRESOURCE_zero" "Some (BufferResource ex_buffer_local)" ex_cs]
  show ?thesis using r by simp
qed




lemma clear_DO_NOT_WAIT [simp]:
  "(F AND NOT D3D11_MAP_FLAG_DO_NOT_WAIT) AND D3D11_MAP_FLAG_DO_NOT_WAIT = 0"
  by (simp add: and.assoc)

lemma after_first_poll_env [simp]:
  "polls (after_first_poll s) = Suc (polls s)" "inUse (after_first_poll s) = inUse s"
  "init_flushes (after_first_poll s) = init_flushes s"
  "allowMapFlagNoWait (after_first_poll s) = allowMapFlagNoWait s"
  "cs_stream (after_first_poll s) = cs_stream s"
  "flush_pending (after_first_poll s) = flush_pending s"
  "m_csChunk (after_first_poll s) = []"
  "cs_synced (after_first_poll s) = length (cs_stream s)"
  by (simp_all add: after_first_poll_def cs_stream_def flush_pending_def
        SynchronizeCsThread_def Let_def FlushCsChunk_def EmitCsChunk_def)

lemma D3D11_WaitForResource_idle:
  assumes "\<not> inUse s rid (polls s)"
  shows "D3D11_WaitForResource rid F s = Some (True, after_first_poll s)"
  using assms by (simp add: D3D11_WaitForResource_def Let_def isInUse_def after_first_poll_def)


lemma D3D9_WaitForResource_idle:
  assumes "\<not> inUse s rid (polls s)"
  shows "D3D9_WaitForResource rid F s = Some (True, after_first_poll s)"
  using assms by (simp add: D3D9_WaitForResource_def Let_def isInUse_def after_first_poll_def)



lemma before_wait_env [simp]:
  "polls (before_wait res n s) = polls s" "inUse (before_wait res n s) = inUse s"
  "init_flushes (before_wait res n s) = init_flushes s"
  "allowMapFlagNoWait (before_wait res n s) = allowMapFlagNoWait s"
  by (simp_all add: before_wait_def UpdateMappedBuffer_def split: D3D11_RESOURCE.splits)






section \<open>Proofs: view creation\<close>

text \<open>
  C6, the case it misses. \<^verbatim>\<open>CreateDepthStencilView\<close> on a buffer, with view
  classes that refuse buffers, fails with \<^verbatim>\<open>E_INVALIDARG\<close>; with view classes that
  accept it, it returns \<^verbatim>\<open>S_OK\<close> together with a view object.
\<close>

theorem CreateDepthStencilView_buffer_counterexample:
  "CreateDepthStencilView ex_view_env (Some ex_buffer_desc) None (Some None)
     = (E_INVALIDARG, Some None)
   \<and> FAILED E_INVALIDARG
   \<and> CreateDepthStencilView ex_view_env_lenient (Some ex_buffer_desc) None (Some None)
     = (S_OK, Some (Some \<lparr>view_resource = ex_buffer_desc,
                          view_desc = \<lparr>vd_Format = 0, vd_rest = 0\<rparr>\<rparr>))"
  by (simp add: CreateDepthStencilView_def view_desc_for_def InitReturnPtr_def
        ex_view_env_def ex_view_env_lenient_def ex_buffer_desc_def)

lemma view_desc_for_None:
  "(view_desc_for env res None = None) = FAILED (fst (GetDescFromResource env res))"
  "(view_desc_for env res (Some d) = None) = FAILED (fst (NormalizeDesc env res d))"
  by (simp_all add: view_desc_for_def split: prod.splits)

lemma CreateDepthStencilView_cases:
  "CreateDepthStencilView env None pDesc pp = (E_INVALIDARG, InitReturnPtr pp)"
  "view_desc_for env res pDesc = None
     \<Longrightarrow> CreateDepthStencilView env (Some res) pDesc pp = (E_INVALIDARG, InitReturnPtr pp)"
  "view_desc_for env res pDesc = Some desc
     \<Longrightarrow> \<not> CheckResourceViewCompatibility env res D3D11_BIND_DEPTH_STENCIL (vd_Format desc)
     \<Longrightarrow> CreateDepthStencilView env (Some res) pDesc pp = (E_INVALIDARG, InitReturnPtr pp)"
  "view_desc_for env res pDesc = Some desc
     \<Longrightarrow> CheckResourceViewCompatibility env res D3D11_BIND_DEPTH_STENCIL (vd_Format desc)
     \<Longrightarrow> CreateDepthStencilView env (Some res) pDesc None = (S_FALSE, None)"
  "view_desc_for env res pDesc = Some desc
     \<Longrightarrow> CheckResourceViewCompatibility env res D3D11_BIND_DEPTH_STENCIL (vd_Format desc)
     \<Longrightarrow> \<not> view_constructor env res desc
     \<Longrightarrow> CreateDepthStencilView env (Some res) pDesc (Some v) = (E_INVALIDARG, Some None)"
  "view_desc_for env res pDesc = Some desc
     \<Longrightarrow> CheckResourceViewCompatibility env res D3D11_BIND_DEPTH_STENCIL (vd_Format desc)
     \<Longrightarrow> view_constructor env res desc
     \<Longrightarrow> CreateDepthStencilView env (Some res) pDesc (Some v)
           = (S_OK, Some (Some \<lparr>view_resource = res, view_desc = desc\<rparr>))"
  by (simp_all add: CreateDepthStencilView_def InitReturnPtr_def Let_def)

text \<open>
  C6 (as amended). The lenient answer for buffers belongs to
  \<^verbatim>\<open>CreateRenderTargetView\<close>: on a buffer it returns \<^verbatim>\<open>S_OK\<close> and a null view.
  \<^verbatim>\<open>CreateDepthStencilView\<close> has no such case: whenever it returns \<^verbatim>\<open>S_OK\<close> it
  has made a view object. For a buffer as for every other resource it returns
  \<^verbatim>\<open>E_INVALIDARG\<close> with a null view when the resource is null, when the description
  cannot be derived from the resource (none was passed and \<^verbatim>\<open>GetDescFromResource\<close>
  fails) or normalized (\<^verbatim>\<open>NormalizeDesc\<close> fails on the one passed), when the resource is
  not compatible with a depth-stencil view of the description's format, and when the
  constructor of the view throws; it returns \<^verbatim>\<open>S_FALSE\<close> when all tests pass and the
  output pointer is null, and \<^verbatim>\<open>S_OK\<close> with the new view otherwise.
\<close>

theorem view_creation_on_buffers:
  "(Dim res = D3D11_RESOURCE_DIMENSION_BUFFER \<longrightarrow>
      CreateRenderTargetView env (Some res) pDesc (Some prev) = (S_OK, Some None)
      \<and> CreateRenderTargetView env (Some res) pDesc None = (S_OK, None))
   \<and> (fst (CreateDepthStencilView env' pResource pDesc' pp) = S_OK \<longrightarrow>
      (\<exists>v. snd (CreateDepthStencilView env' pResource pDesc' pp) = Some (Some v)))
   \<and> CreateDepthStencilView env' None pDesc' pp = (E_INVALIDARG, InitReturnPtr pp)
   \<and> (view_desc_for env' r pDesc' = None) =
       (case pDesc' of None \<Rightarrow> FAILED (fst (GetDescFromResource env' r))
                     | Some d \<Rightarrow> FAILED (fst (NormalizeDesc env' r d)))
   \<and> (view_desc_for env' r pDesc' = None \<longrightarrow>
       CreateDepthStencilView env' (Some r) pDesc' pp = (E_INVALIDARG, InitReturnPtr pp))
   \<and> (view_desc_for env' r pDesc' = Some desc
        \<and> \<not> CheckResourceViewCompatibility env' r D3D11_BIND_DEPTH_STENCIL (vd_Format desc) \<longrightarrow>
       CreateDepthStencilView env' (Some r) pDesc' pp = (E_INVALIDARG, InitReturnPtr pp))
   \<and> (view_desc_for env' r pDesc' = Some desc
        \<and> CheckResourceViewCompatibility env' r D3D11_BIND_DEPTH_STENCIL (vd_Format desc) \<longrightarrow>
       CreateDepthStencilView env' (Some r) pDesc' None = (S_FALSE, None)
       \<and> CreateDepthStencilView env' (Some r) pDesc' (Some prev) =
           (if view_constructor env' r desc
            then (S_OK, Some (Some \<lparr>view_resource = r, view_desc = desc\<rparr>))
            else (E_INVALIDARG, Some None)))
   \<and> InitReturnPtr (Some prev) = Some None \<and> InitReturnPtr None = (None :: D3D11_VIEW option option)"
proof -
  have 1: "Dim res = D3D11_RESOURCE_DIMENSION_BUFFER \<longrightarrow>
      CreateRenderTargetView env (Some res) pDesc (Some prev) = (S_OK, Some None)
      \<and> CreateRenderTargetView env (Some res) pDesc None = (S_OK, None)"
    by (simp add: CreateRenderTargetView_def InitReturnPtr_def)
  have 2: "fst (CreateDepthStencilView env' pResource pDesc' pp) = S_OK \<longrightarrow>
      (\<exists>v. snd (CreateDepthStencilView env' pResource pDesc' pp) = Some (Some v))"
    by (auto simp: CreateDepthStencilView_def InitReturnPtr_def Let_def
             split: option.splits if_splits)
  have 3: "(view_desc_for env' r pDesc' = None) =
       (case pDesc' of None \<Rightarrow> FAILED (fst (GetDescFromResource env' r))
                     | Some d \<Rightarrow> FAILED (fst (NormalizeDesc env' r d)))"
    by (cases pDesc') (simp_all add: view_desc_for_None)
  have 4: "InitReturnPtr (Some prev) = Some None" "InitReturnPtr None = (None :: D3D11_VIEW option option)"
    by (simp_all add: InitReturnPtr_def)
  have 5: "CreateDepthStencilView env' None pDesc' pp = (E_INVALIDARG, InitReturnPtr pp)"
    by (rule CreateDepthStencilView_cases(1))
  have 6: "view_desc_for env' r pDesc' = None \<longrightarrow>
       CreateDepthStencilView env' (Some r) pDesc' pp = (E_INVALIDARG, InitReturnPtr pp)"
    by (simp add: CreateDepthStencilView_cases(2))
  have 7: "view_desc_for env' r pDesc' = Some desc
        \<and> \<not> CheckResourceViewCompatibility env' r D3D11_BIND_DEPTH_STENCIL (vd_Format desc) \<longrightarrow>
       CreateDepthStencilView env' (Some r) pDesc' pp = (E_INVALIDARG, InitReturnPtr pp)"
    by (simp add: CreateDepthStencilView_cases(3))
  have 8: "view_desc_for env' r pDesc' = Some desc
        \<and> CheckResourceViewCompatibility env' r D3D11_BIND_DEPTH_STENCIL (vd_Format desc) \<longrightarrow>
       CreateDepthStencilView env' (Some r) pDesc' None = (S_FALSE, None)
       \<and> CreateDepthStencilView env' (Some r) pDesc' (Some prev) =
           (if view_constructor env' r desc
            then (S_OK, Some (Some \<lparr>view_resource = r, view_desc = desc\<rparr>))
            else (E_INVALIDARG, Some None))"
    by (simp add: CreateDepthStencilView_cases(4,5,6))
  show ?thesis by (intro conjI 1 2 3 4 5 6 7 8)
qed

theorem view_creation_on_buffers_witness:
  "Dim ex_buffer_desc = D3D11_RESOURCE_DIMENSION_BUFFER
   \<and> CreateRenderTargetView ex_view_env (Some ex_buffer_desc) None (Some None) = (S_OK, Some None)
   \<and> fst (CreateDepthStencilView ex_view_env_lenient (Some ex_buffer_desc) None (Some None)) = S_OK
   \<and> snd (CreateDepthStencilView ex_view_env_lenient (Some ex_buffer_desc) None (Some None)) \<noteq> Some None
   \<and> view_desc_for ex_view_env ex_buffer_desc None = None
   \<and> CreateDepthStencilView ex_view_env (Some ex_buffer_desc) None (Some None)
       = (E_INVALIDARG, Some None)
   \<and> CreateDepthStencilView ex_view_env_lenient (Some ex_buffer_desc) None None = (S_FALSE, None)"
proof -
  have d: "Dim ex_buffer_desc = D3D11_RESOURCE_DIMENSION_BUFFER"
    by (simp add: ex_buffer_desc_def)
  have ok: "fst (CreateDepthStencilView ex_view_env_lenient (Some ex_buffer_desc) None (Some None)) = S_OK"
    by (simp add: CreateDepthStencilView_def view_desc_for_def InitReturnPtr_def
        ex_view_env_lenient_def ex_buffer_desc_def)
  have f: "FAILED (fst (GetDescFromResource ex_view_env ex_buffer_desc))"
    by (simp add: ex_view_env_def ex_buffer_desc_def)
  have l: "view_desc_for ex_view_env_lenient ex_buffer_desc None = Some \<lparr>vd_Format = 0, vd_rest = 0\<rparr>"
    "CheckResourceViewCompatibility ex_view_env_lenient ex_buffer_desc D3D11_BIND_DEPTH_STENCIL
       (vd_Format \<lparr>vd_Format = 0, vd_rest = 0\<rparr>)"
    by (simp_all add: view_desc_for_def ex_view_env_lenient_def ex_buffer_desc_def)
  note A = view_creation_on_buffers [where res = ex_buffer_desc and env = ex_view_env
      and pDesc = None and prev = None and env' = ex_view_env_lenient
      and pResource = "Some ex_buffer_desc" and pDesc' = None and pp = "Some None"
      and r = ex_buffer_desc and desc = "\<lparr>vd_Format = 0, vd_rest = 0\<rparr>"]
  note B = view_creation_on_buffers [where res = ex_buffer_desc and env = ex_view_env
      and pDesc = None and prev = None and env' = ex_view_env
      and pResource = "Some ex_buffer_desc" and pDesc' = None and pp = "Some None"
      and r = ex_buffer_desc and desc = "\<lparr>vd_Format = 0, vd_rest = 0\<rparr>"]
  from A d have 1: "CreateRenderTargetView ex_view_env (Some ex_buffer_desc) None (Some None)
                      = (S_OK, Some None)"
    by blast
  from A ok have 2: "snd (CreateDepthStencilView ex_view_env_lenient (Some ex_buffer_desc) None (Some None))
                       \<noteq> Some None"
    by auto
  from B f have 3: "view_desc_for ex_view_env ex_buffer_desc None = None" by simp
  from B 3 have 4: "CreateDepthStencilView ex_view_env (Some ex_buffer_desc) None (Some None)
       = (E_INVALIDARG, Some None)"
    by simp
  from A l have 5: "CreateDepthStencilView ex_view_env_lenient (Some ex_buffer_desc) None None
       = (S_FALSE, None)"
    by blast
  show ?thesis by (intro conjI d 1 ok 2 3 4 5)
qed
section \<open>Proofs: render states and the sample mask of the version-9 device\<close>

lemma flags_env [simp]:
  "renderStates (flags_set f s) = renderStates s" "renderStates (flags_clr f s) = renderStates s"
  "m_recorder (flags_set f s) = m_recorder s" "renderTargets (flags_set f s) = renderTargets s"
  "renderTargets (flags_clr f s) = renderTargets s"
  "m_csChunk (flags_set f s) = m_csChunk s" "cs_dispatched (flags_set f s) = cs_dispatched s"
  "m_csChunk (flags_clr f s) = m_csChunk s" "cs_dispatched (flags_clr f s) = cs_dispatched s"
  "m_flags (flags_set f s) = insert f (m_flags s)" "m_flags (flags_clr f s) = m_flags s - {f}"
  by (simp_all add: flags_set_def flags_clr_def)

lemma EmitCs_device [simp]:
  fixes s :: D3D9DeviceEx
  shows "renderStates (EmitCs c s) = renderStates s" "m_flags (EmitCs c s) = m_flags s"
    "renderTargets (EmitCs c s) = renderTargets s" "m_recorder (EmitCs c s) = m_recorder s"
  by (simp_all add: EmitCs_def EmitCsChunk_def)

lemma SetRenderState_switch_renderStates [simp]:
  "renderStates (SetRenderState_switch k a s) = renderStates s"
  by (simp add: SetRenderState_switch_def Let_def BindBlendFactor_def BindDepthStencilRefrence_def
        UpdatePushConstant_AlphaRef_def)

lemma ResolveZ_renderStates [simp]: "renderStates (ResolveZ s) = renderStates s"
  by (simp add: ResolveZ_def split: option.splits)

lemma D3DRS_bounds: "unat (k :: 32 word) = D3DRS_POINTSIZE \<Longrightarrow> 7 \<le> unat k \<and> unat k \<le> 209"
  by (simp add: D3DRS_defs)

text \<open>
  C7, the case it misses. On a device whose point size is 1.0,
  \<^verbatim>\<open>SetRenderState(D3DRS_POINTSIZE, MAKEFOURCC('A','2','M','1'))\<close> returns \<^verbatim>\<open>D3D_OK\<close>
  and \<^verbatim>\<open>GetRenderState(D3DRS_POINTSIZE)\<close> still yields 1.0; likewise setting
  \<^verbatim>\<open>D3DRS_ADAPTIVETESS_Y\<close> from 5 to 0 leaves 5 to be read.
\<close>

theorem SetRenderState_vendor_hack_counterexample:
  "7 \<le> unat (154 :: 32 word) \<and> unat (154 :: 32 word) \<le> 209
   \<and> fst (D3D9_SetRenderState 154 AMD_AlphaToCoverageEnable ex_device) = D3D_OK
   \<and> D3D9_GetRenderState 154 (Some 0)
        (snd (D3D9_SetRenderState 154 AMD_AlphaToCoverageEnable ex_device))
       = (D3D_OK, Some 0x3f800000)
   \<and> AMD_AlphaToCoverageEnable \<noteq> 0x3f800000
   \<and> fst (D3D9_SetRenderState 181 0 ex_device) = D3D_OK
   \<and> D3D9_GetRenderState 181 (Some 0) (snd (D3D9_SetRenderState 181 0 ex_device))
       = (D3D_OK, Some 5)"
proof -
  have rs: "renderStates ex_device 154 = 0x3f800000" "renderStates ex_device 181 = 5"
    "m_recorder ex_device = None"
    by (simp_all add: ex_device_def cs_state.defs)
  have v: "AMD_AlphaToCoverageEnable = 0x314D3241"
    by (simp add: AMD_AlphaToCoverageEnable_def MAKEFOURCC_def)
  have nv: "NV_AlphaToCoverageDisable = 0" by (simp add: NV_AlphaToCoverageDisable_def)
  have a: "renderStates (snd (D3D9_SetRenderState 154 AMD_AlphaToCoverageEnable ex_device))
             = renderStates ex_device"
    "fst (D3D9_SetRenderState 154 AMD_AlphaToCoverageEnable ex_device) = D3D_OK"
    using rs by (simp_all add: D3D9_SetRenderState_def ShouldRecord_def Let_def D3DRS_defs v)
  have b: "renderStates (snd (D3D9_SetRenderState 181 0 ex_device)) = renderStates ex_device"
    "fst (D3D9_SetRenderState 181 0 ex_device) = D3D_OK"
    using rs by (simp_all add: D3D9_SetRenderState_def ShouldRecord_def Let_def D3DRS_defs nv RESZ_def
                  AMD_AlphaToCoverageEnable_def AMD_AlphaToCoverageDisable_def MAKEFOURCC_def)
  have 1: "D3D9_GetRenderState 154 (Some 0)
        (snd (D3D9_SetRenderState 154 AMD_AlphaToCoverageEnable ex_device))
       = (D3D_OK, Some 0x3f800000)"
    using rs a by (simp add: D3D9_GetRenderState_def D3DRS_defs)
  have 2: "D3D9_GetRenderState 181 (Some 0) (snd (D3D9_SetRenderState 181 0 ex_device))
       = (D3D_OK, Some 5)"
    using rs b by (simp add: D3D9_GetRenderState_def D3DRS_defs)
  have 3: "AMD_AlphaToCoverageEnable \<noteq> 0x3f800000" by (simp add: v)
  have 4: "7 \<le> unat (154 :: 32 word)" "unat (154 :: 32 word) \<le> 209" by simp_all
  show ?thesis by (intro conjI 1 2 3 4 a(2) b(2))
qed

text \<open>
  C7 (as amended). For a render state \<open>k\<close> from \<^verbatim>\<open>D3DRS_ZENABLE\<close> (7) to
  \<^verbatim>\<open>D3DRS_BLENDOPALPHA\<close> (209), on a device that is not recording a state block, and a
  value that is not one of the vendor extensions of \<^verbatim>\<open>D3DRS_POINTSIZE\<close> and
  \<^verbatim>\<open>D3DRS_ADAPTIVETESS_Y\<close>, \<^verbatim>\<open>SetRenderState(k, v)\<close> returns \<^verbatim>\<open>D3D_OK\<close> and
  \<^verbatim>\<open>GetRenderState(k)\<close> then yields \<open>v\<close>. While recording, and for the vendor
  extensions, the render-state array is left as it was. For \<open>k = 0\<close> and \<open>k\<close> from
  210 to 255 \<^verbatim>\<open>GetRenderState\<close> yields 0 whatever was set. For \<open>k\<close> above 255 or
  from 1 to 6, \<^verbatim>\<open>SetRenderState\<close> returns \<^verbatim>\<open>D3D_OK\<close> and changes nothing.
\<close>

theorem SetRenderState_GetRenderState:
  "(7 \<le> unat k \<and> unat k \<le> 209 \<and> \<not> ShouldRecord s \<and> \<not> is_vendor_hack (unat k) v \<longrightarrow>
      fst (D3D9_SetRenderState k v s) = D3D_OK
      \<and> D3D9_GetRenderState k (Some p) (snd (D3D9_SetRenderState k v s)) = (D3D_OK, Some v))
   \<and> (ShouldRecord s \<or> is_vendor_hack (unat k) v \<longrightarrow>
      renderStates (snd (D3D9_SetRenderState k v s)) = renderStates s)
   \<and> (k = 0 \<or> 210 \<le> unat k \<and> unat k \<le> 255 \<longrightarrow>
      D3D9_GetRenderState k (Some p) s = (D3D_OK, Some 0))
   \<and> (unat k > 255 \<or> (unat k < 7 \<and> k \<noteq> 0) \<longrightarrow>
      D3D9_SetRenderState k v s = (D3D_OK, s))"
proof (intro conjI impI)
  assume a: "7 \<le> unat k \<and> unat k \<le> 209 \<and> \<not> ShouldRecord s \<and> \<not> is_vendor_hack (unat k) v"
  then have nr: "(if ShouldRecord s then m_recorder s else None) = None" by simp
  from a have nh:
    "\<not> (unat k = D3DRS_POINTSIZE \<and> (v = AMD_AlphaToCoverageEnable \<or> v = AMD_AlphaToCoverageDisable))"
    "\<not> (unat k = D3DRS_POINTSIZE \<and> v = RESZ)"
    "\<not> (unat k = D3DRS_ADAPTIVETESS_Y \<and> (v = NV_AlphaToCoverageEnable \<or> v = NV_AlphaToCoverageDisable))"
    by (auto simp: is_vendor_hack_def)
  from a have rng: "\<not> (unat k > 255 \<or> (unat k < D3DRS_ZENABLE \<and> k \<noteq> 0))"
    "\<not> (unat k < D3DRS_ZENABLE \<or> unat k > D3DRS_BLENDOPALPHA)"
    by (simp_all add: D3DRS_ZENABLE_def D3DRS_BLENDOPALPHA_def)
  have set: "D3D9_SetRenderState k v s =
     (if renderStates s (unat k) \<noteq> v
      then (D3D_OK, SetRenderState_switch (unat k) (IsAlphaToCoverageEnabled s)
                      (s\<lparr>renderStates := (renderStates s)(unat k := v)\<rparr>))
      else (D3D_OK, s))"
    unfolding D3D9_SetRenderState_def by (simp add: Let_def rng(1) nr nh)
  show "fst (D3D9_SetRenderState k v s) = D3D_OK" by (simp add: set)
  have "renderStates (snd (D3D9_SetRenderState k v s)) (unat k) = v" by (simp add: set)
  then show "D3D9_GetRenderState k (Some p) (snd (D3D9_SetRenderState k v s)) = (D3D_OK, Some v)"
    unfolding D3D9_GetRenderState_def using rng by simp
next
  assume "ShouldRecord s \<or> is_vendor_hack (unat k) v"
  then show "renderStates (snd (D3D9_SetRenderState k v s)) = renderStates s"
  proof
    assume r: "ShouldRecord s"
    then obtain sb where "m_recorder s = Some sb" by (auto simp: ShouldRecord_def split: option.splits)
    with r show ?thesis
      by (simp add: D3D9_SetRenderState_def D3D9StateBlock_SetRenderState_def)
  next
    assume h: "is_vendor_hack (unat k) v"
    show ?thesis
    proof (cases "ShouldRecord s")
      case True
      then obtain sb where "m_recorder s = Some sb" by (auto simp: ShouldRecord_def split: option.splits)
      with True show ?thesis
        by (simp add: D3D9_SetRenderState_def D3D9StateBlock_SetRenderState_def)
    next
      case False
      from h have ne: "D3DRS_POINTSIZE \<noteq> D3DRS_ADAPTIVETESS_Y" by (simp add: D3DRS_defs)
      from h False show ?thesis
        unfolding D3D9_SetRenderState_def is_vendor_hack_def
        by (auto simp: Let_def D3DRS_POINTSIZE_def D3DRS_ADAPTIVETESS_Y_def)
    qed
  qed
next
  assume "k = 0 \<or> 210 \<le> unat k \<and> unat k \<le> 255"
  then show "D3D9_GetRenderState k (Some p) s = (D3D_OK, Some 0)"
    by (auto simp: D3D9_GetRenderState_def D3DRS_ZENABLE_def D3DRS_BLENDOPALPHA_def)
next
  assume "unat k > 255 \<or> (unat k < 7 \<and> k \<noteq> 0)"
  then show "D3D9_SetRenderState k v s = (D3D_OK, s)"
    by (auto simp: D3D9_SetRenderState_def D3DRS_ZENABLE_def)
qed

theorem SetRenderState_GetRenderState_witness:
  "D3D9_GetRenderState 27 (Some 0) (snd (D3D9_SetRenderState 27 1 ex_device)) = (D3D_OK, Some 1)
   \<and> renderStates (snd (D3D9_SetRenderState 154 RESZ ex_device)) = renderStates ex_device
   \<and> D3D9_GetRenderState 210 (Some 7) ex_device = (D3D_OK, Some 0)
   \<and> D3D9_SetRenderState 300 1 ex_device = (D3D_OK, ex_device)"
proof -
  have nr: "\<not> ShouldRecord ex_device"
    by (simp add: ShouldRecord_def ex_device_def cs_state.defs)
  have nh: "\<not> is_vendor_hack (unat (27 :: 32 word)) 1"
    by (simp add: is_vendor_hack_def D3DRS_defs)
  have h: "is_vendor_hack (unat (154 :: 32 word)) RESZ"
    by (simp add: is_vendor_hack_def D3DRS_defs)
  have r: "7 \<le> unat (27 :: 32 word) \<and> unat (27 :: 32 word) \<le> 209" by simp
  have r2: "(210 :: 32 word) = 0 \<or> 210 \<le> unat (210 :: 32 word) \<and> unat (210 :: 32 word) \<le> 255"
    by simp
  have r3: "unat (300 :: 32 word) > 255 \<or> (unat (300 :: 32 word) < 7 \<and> (300 :: 32 word) \<noteq> 0)"
    by simp
  from SetRenderState_GetRenderState [of 27 ex_device 1 0] r nr nh
  have 1: "D3D9_GetRenderState 27 (Some 0) (snd (D3D9_SetRenderState 27 1 ex_device)) = (D3D_OK, Some 1)"
    by blast
  from SetRenderState_GetRenderState [of 154 ex_device RESZ 0] h
  have 2: "renderStates (snd (D3D9_SetRenderState 154 RESZ ex_device)) = renderStates ex_device"
    by blast
  from SetRenderState_GetRenderState [of 210 ex_device 1 7] r2
  have 3: "D3D9_GetRenderState 210 (Some 7) ex_device = (D3D_OK, Some 0)"
    by blast
  from SetRenderState_GetRenderState [of 300 ex_device 1 0] r3
  have 4: "D3D9_SetRenderState 300 1 ex_device = (D3D_OK, ex_device)"
    by blast
  show ?thesis by (intro conjI 1 2 3 4)
qed

lemma last_sample_mask_snoc:
  "last_sample_mask (cs @ [c]) =
     (case c of setMultisampleState m a \<Rightarrow> Some m | _ \<Rightarrow> last_sample_mask cs)"
  by (cases c) (simp_all add: last_sample_mask_def)

lemma cs_stream_flags [simp]:
  "cs_stream (flags_set f s) = cs_stream s" "cs_stream (flags_clr f s) = cs_stream s"
  by (simp_all add: cs_stream_def)

lemma primary_rt_masks_simps [simp]:
  "primary_rt_masks (flags_set f s) = primary_rt_masks s"
  "primary_rt_masks (flags_clr f s) = primary_rt_masks s"
  "primary_rt_masks (EmitCs c s) = primary_rt_masks s"
  by (simp_all add: primary_rt_masks_def)

lemma draw_sample_mask_simps [simp]:
  "draw_sample_mask (flags_set f s) = draw_sample_mask s"
  "draw_sample_mask (flags_clr f s) = draw_sample_mask s"
  "draw_sample_mask (EmitCs c s) = draw_sample_mask s"
  by (simp_all add: draw_sample_mask_def)

lemma flags_test_simps [simp]:
  "flags_test g (flags_set f s) = (g = f \<or> flags_test g s)"
  "flags_test g (flags_clr f s) = (g \<noteq> f \<and> flags_test g s)"
  "flags_test g (EmitCs c s) = flags_test g s"
  by (auto simp: flags_test_def)

lemma IsAlphaToCoverageEnabled_flags [simp]:
  "IsAlphaToCoverageEnabled (flags_set f s) = IsAlphaToCoverageEnabled s"
  "IsAlphaToCoverageEnabled (flags_clr f s) = IsAlphaToCoverageEnabled s"
  by (simp_all add: IsAlphaToCoverageEnabled_def flags_set_def flags_clr_def)

lemma BindMultiSampleState_stream:
  "cs_stream (BindMultiSampleState s) =
     cs_stream s @ [setMultisampleState
                      (if flags_test ValidSampleMask s
                       then renderStates s D3DRS_MULTISAMPLEMASK else 0xffffffff)
                      (IsAlphaToCoverageEnabled s)]"
  by (simp add: BindMultiSampleState_def Let_def)

lemma BindMultiSampleState_env [simp]:
  "flags_test g (BindMultiSampleState s) = (g \<noteq> DirtyMultiSampleState \<and> flags_test g s)"
  "primary_rt_masks (BindMultiSampleState s) = primary_rt_masks s"
  "draw_sample_mask (BindMultiSampleState s) = draw_sample_mask s"
  "renderStates (BindMultiSampleState s) = renderStates s"
  by (simp_all add: BindMultiSampleState_def Let_def)

lemma PrepareDraw_MultiSample_ok:
  assumes "multisample_state_ok s"
  shows "multisample_state_ok (PrepareDraw_MultiSample s)"
    and "last_sample_mask (cs_stream (PrepareDraw_MultiSample s)) = Some (draw_sample_mask s)"
    and "\<not> flags_test DirtyMultiSampleState (PrepareDraw_MultiSample s)"
  using assms
  by (auto simp: multisample_state_ok_def PrepareDraw_MultiSample_def BindMultiSampleState_stream
        last_sample_mask_snoc draw_sample_mask_def)

lemma SetRenderState_switch_ms [simp]:
  "flags_test ValidSampleMask (SetRenderState_switch k a s) = flags_test ValidSampleMask s"
  "primary_rt_masks (SetRenderState_switch k a s) = primary_rt_masks s"
  "draw_sample_mask (SetRenderState_switch k a s) = draw_sample_mask s"
  "last_sample_mask (cs_stream (SetRenderState_switch k a s)) = last_sample_mask (cs_stream s)"
  by (simp_all add: SetRenderState_switch_def Let_def BindBlendFactor_def
        BindDepthStencilRefrence_def UpdatePushConstant_AlphaRef_def last_sample_mask_snoc)

lemma SetRenderState_switch_dirty:
  "flags_test DirtyMultiSampleState s \<Longrightarrow> flags_test DirtyMultiSampleState (SetRenderState_switch k a s)"
  "flags_test ValidSampleMask s
     \<Longrightarrow> flags_test DirtyMultiSampleState (SetRenderState_switch D3DRS_MULTISAMPLEMASK a s)"
  by (simp_all add: SetRenderState_switch_def Let_def BindBlendFactor_def
        BindDepthStencilRefrence_def UpdatePushConstant_AlphaRef_def D3DRS_defs)

lemma ResolveZ_ms [simp]:
  "flags_test g (ResolveZ s) = flags_test g s"
  "primary_rt_masks (ResolveZ s) = primary_rt_masks s"
  "draw_sample_mask (ResolveZ s) = draw_sample_mask s"
  "last_sample_mask (cs_stream (ResolveZ s)) = last_sample_mask (cs_stream s)"
  by (simp_all add: ResolveZ_def last_sample_mask_snoc split: option.splits)

lemma multisample_state_ok_upd [simp]:
  "multisample_state_ok (s\<lparr>m_recorder := r\<rparr>) = multisample_state_ok s"
  "multisample_state_ok (s\<lparr>m_amdATOC := b\<rparr>) = multisample_state_ok s"
  "multisample_state_ok (s\<lparr>m_nvATOC := b\<rparr>) = multisample_state_ok s"
  by (simp_all add: multisample_state_ok_def flags_test_def primary_rt_masks_def
        draw_sample_mask_def cs_stream_def)

lemma multisample_state_ok_dirty:
  "multisample_state_ok s \<Longrightarrow> multisample_state_ok (flags_set DirtyMultiSampleState s)"
  by (auto simp: multisample_state_ok_def)

lemma SetRenderState_ms_ok:
  assumes ok: "multisample_state_ok s"
  shows "multisample_state_ok (snd (D3D9_SetRenderState k v s))"
proof -
  let ?s1 = "s\<lparr>renderStates := (renderStates s)(unat k := v)\<rparr>"
  have gen: "multisample_state_ok (SetRenderState_switch (unat k) a ?s1)" for a
  proof (cases "unat k = D3DRS_MULTISAMPLEMASK")
    case False
    then have d: "draw_sample_mask ?s1 = draw_sample_mask s"
      by (simp add: draw_sample_mask_def primary_rt_masks_def)
    have f: "flags_test g ?s1 = flags_test g s" for g by (simp add: flags_test_def)
    have p: "primary_rt_masks ?s1 = primary_rt_masks s" by (simp add: primary_rt_masks_def)
    have c: "cs_stream ?s1 = cs_stream s" by (simp add: cs_stream_def)
    from ok have "flags_test DirtyMultiSampleState ?s1
        \<or> last_sample_mask (cs_stream ?s1) = Some (draw_sample_mask ?s1)"
      by (simp add: multisample_state_ok_def d f c)
    then have "flags_test DirtyMultiSampleState (SetRenderState_switch (unat k) a ?s1)
        \<or> last_sample_mask (cs_stream ?s1) = Some (draw_sample_mask ?s1)"
      using SetRenderState_switch_dirty(1) [of ?s1 "unat k" a] by blast
    with ok show ?thesis by (simp add: multisample_state_ok_def f p)
  next
    case True
    have f: "flags_test g ?s1 = flags_test g s" for g by (simp add: flags_test_def)
    have p: "primary_rt_masks ?s1 = primary_rt_masks s" by (simp add: primary_rt_masks_def)
    have c: "cs_stream ?s1 = cs_stream s" by (simp add: cs_stream_def)
    show ?thesis
    proof (cases "flags_test ValidSampleMask s")
      case v: True
      then have "flags_test DirtyMultiSampleState (SetRenderState_switch (unat k) a ?s1)"
        unfolding True by (intro SetRenderState_switch_dirty(2)) (simp add: flags_test_def)
      with ok show ?thesis by (simp add: multisample_state_ok_def f p)
    next
      case v: False
      with ok have np: "\<not> primary_rt_masks s" by (simp add: multisample_state_ok_def)
      then have d: "draw_sample_mask ?s1 = draw_sample_mask s"
        by (simp add: draw_sample_mask_def p)
      from ok have "flags_test DirtyMultiSampleState ?s1
          \<or> last_sample_mask (cs_stream ?s1) = Some (draw_sample_mask ?s1)"
        by (simp add: multisample_state_ok_def d f c)
      then have "flags_test DirtyMultiSampleState (SetRenderState_switch (unat k) a ?s1)
          \<or> last_sample_mask (cs_stream ?s1) = Some (draw_sample_mask ?s1)"
        using SetRenderState_switch_dirty(1) [of ?s1 "unat k" a] by blast
      with ok show ?thesis by (simp add: multisample_state_ok_def f p)
    qed
  qed
  have rz: "multisample_state_ok (ResolveZ s)"
    using ok by (simp add: multisample_state_ok_def)
  show ?thesis
  proof (cases "unat k > 255 \<or> (unat k < D3DRS_ZENABLE \<and> k \<noteq> 0)")
    case True
    then show ?thesis using ok by (simp add: D3D9_SetRenderState_def)
  next
    case r: False
    show ?thesis
    proof (cases "ShouldRecord s")
      case True
      then obtain sb where "m_recorder s = Some sb"
        by (auto simp: ShouldRecord_def split: option.splits)
      with True ok show ?thesis
        by (simp add: D3D9_SetRenderState_def D3D9StateBlock_SetRenderState_def r)
    next
      case nr: False
      then have nr': "(if ShouldRecord s then m_recorder s else None) = None" by simp
      show ?thesis
      proof (cases "renderStates s (unat k) = v")
        case True
        then show ?thesis using ok by (simp add: D3D9_SetRenderState_def r nr')
      next
        case ch: False
        let ?amd = "s\<lparr>m_amdATOC := (v = AMD_AlphaToCoverageEnable)\<rparr>"
        let ?nv = "s\<lparr>m_nvATOC := (v = NV_AlphaToCoverageEnable)\<rparr>"
        have u: "snd (D3D9_SetRenderState k v s) =
          (if unat k = D3DRS_POINTSIZE
               \<and> (v = AMD_AlphaToCoverageEnable \<or> v = AMD_AlphaToCoverageDisable)
           then (if IsAlphaToCoverageEnabled s \<noteq> IsAlphaToCoverageEnabled ?amd
                 then flags_set DirtyMultiSampleState ?amd else ?amd)
           else if unat k = D3DRS_POINTSIZE \<and> v = RESZ then ResolveZ s
           else if unat k = D3DRS_ADAPTIVETESS_Y
               \<and> (v = NV_AlphaToCoverageEnable \<or> v = NV_AlphaToCoverageDisable)
           then (if IsAlphaToCoverageEnabled s \<noteq> IsAlphaToCoverageEnabled ?nv
                 then flags_set DirtyMultiSampleState ?nv else ?nv)
           else SetRenderState_switch (unat k) (IsAlphaToCoverageEnabled s) ?s1)"
          unfolding D3D9_SetRenderState_def
          by (simp add: r nr' ch Let_def if_distrib [of snd] split del: if_split cong: if_cong)
        have d1: "multisample_state_ok (flags_set DirtyMultiSampleState ?amd)"
          using ok by (intro multisample_state_ok_dirty) simp
        have d2: "multisample_state_ok (flags_set DirtyMultiSampleState ?nv)"
          using ok by (intro multisample_state_ok_dirty) simp
        have d3: "multisample_state_ok ?amd" "multisample_state_ok ?nv" using ok by simp_all
        have ifI: "multisample_state_ok (if c then x else y)"
          if "multisample_state_ok x" "multisample_state_ok y" for c x y
          using that by simp
        show ?thesis unfolding u by (intro ifI d1 d2 d3 rz gen)
      qed
    qed
  qed
qed

lemma FlushImplicit_device [simp]:
  fixes s :: D3D9DeviceEx
  shows "m_flags (D3D9_FlushImplicit h s) = m_flags s"
    "renderStates (D3D9_FlushImplicit h s) = renderStates s"
    "renderTargets (D3D9_FlushImplicit h s) = renderTargets s"
  by (simp_all add: D3D9_FlushImplicit_def D3D9_Flush_def Let_def clock_now_def EmitCs_def
        EmitCsChunk_def FlushCsChunk_def)

lemma FlushImplicit_last_sample_mask [simp]:
  "last_sample_mask (cs_stream (D3D9_FlushImplicit h s)) = last_sample_mask (cs_stream s)"
  by (simp add: D3D9_FlushImplicit_eq D3D11_FlushImplicit_stream last_sample_mask_snoc)

lemma FlushImplicit_ms_ok:
  "multisample_state_ok (D3D9_FlushImplicit h s) = multisample_state_ok s"
  by (simp add: multisample_state_ok_def flags_test_def primary_rt_masks_def draw_sample_mask_def)

lemma cs_stream_device_upd [simp]:
  fixes s :: D3D9DeviceEx
  shows "cs_stream (s\<lparr>renderTargets := a\<rparr>) = cs_stream s"
    "cs_stream (s\<lparr>viewport := b\<rparr>) = cs_stream s"
    "cs_stream (s\<lparr>scissorRect := c\<rparr>) = cs_stream s"
    "cs_stream (s\<lparr>m_flags := d\<rparr>) = cs_stream s"
  by (simp_all add: cs_stream_def)

lemma SetRenderTarget_unfold:
  assumes "\<not> (unat i \<ge> MaxSimultaneousRenderTargets \<or> (rt = None \<and> i = 0))"
    and "map_option surf_id (renderTargets s (unat i)) \<noteq> map_option surf_id rt"
  defines "s3 \<equiv> (flags_set DirtyFramebuffer (D3D9_FlushImplicit (i = 0) s))
                    \<lparr>renderTargets := (renderTargets s)(unat i := rt)\<rparr>"
  shows "i \<noteq> 0 \<Longrightarrow> D3D9_SetRenderTarget i rt s = (D3D_OK, s3)"
    and "i = 0 \<Longrightarrow> rt = Some desc \<Longrightarrow>
         D3D9_SetRenderTarget i rt s =
           (D3D_OK,
            flags_set DirtyFFViewport (flags_set DirtyViewportScissor
              ((if (MultiSample desc > D3DMULTISAMPLE_NONMASKABLE) \<noteq> flags_test ValidSampleMask s3
                then flags_set DirtyMultiSampleState
                       ((if MultiSample desc > D3DMULTISAMPLE_NONMASKABLE
                         then flags_set ValidSampleMask else id) (flags_clr ValidSampleMask s3))
                else s3)
               \<lparr>viewport := \<lparr>vp_X = 0, vp_Y = 0, vp_Width = Width desc,
                               vp_Height = Height desc, vp_MinZ = 0, vp_MaxZ = 1\<rparr>,
                 scissorRect := \<lparr>rect_left = 0, rect_top = 0, rect_right = Width desc,
                                  rect_bottom = Height desc\<rparr>\<rparr>)))"
proof -
  have c: "\<not> MaxSimultaneousRenderTargets \<le> unat i" using assms(1) by simp
  show "D3D9_SetRenderTarget i rt s = (D3D_OK, s3)" if "i \<noteq> 0"
    unfolding D3D9_SetRenderTarget_def s3_def
    by (simp add: c assms(2) that Let_def split del: if_split cong: if_cong)
  show "D3D9_SetRenderTarget i rt s =
           (D3D_OK,
            flags_set DirtyFFViewport (flags_set DirtyViewportScissor
              ((if (MultiSample desc > D3DMULTISAMPLE_NONMASKABLE) \<noteq> flags_test ValidSampleMask s3
                then flags_set DirtyMultiSampleState
                       ((if MultiSample desc > D3DMULTISAMPLE_NONMASKABLE
                         then flags_set ValidSampleMask else id) (flags_clr ValidSampleMask s3))
                else s3)
               \<lparr>viewport := \<lparr>vp_X = 0, vp_Y = 0, vp_Width = Width desc,
                               vp_Height = Height desc, vp_MinZ = 0, vp_MaxZ = 1\<rparr>,
                 scissorRect := \<lparr>rect_left = 0, rect_top = 0, rect_right = Width desc,
                                  rect_bottom = Height desc\<rparr>\<rparr>)))"
    if "i = 0" "rt = Some desc"
  proof -
    have a: "\<not> (unat (0 :: 32 word) \<ge> MaxSimultaneousRenderTargets)"
      by (simp add: MaxSimultaneousRenderTargets_def)
    have b: "map_option surf_id (renderTargets s 0) \<noteq> Some (surf_id desc)"
      using assms(2) that by simp
    have a': "(MaxSimultaneousRenderTargets = 0) = False"
      by (simp add: MaxSimultaneousRenderTargets_def)
    have b': "(\<exists>z. renderTargets s 0 = Some z \<and> surf_id z = surf_id desc) = False"
      using b by auto
    show ?thesis
      unfolding D3D9_SetRenderTarget_def s3_def that
      by (simp add: Let_def split del: if_split cong: if_cong) (simp only: a' b' if_False)
  qed
qed

lemma SetRenderTarget_primary:
  assumes "map_option surf_id (renderTargets s 0) \<noteq> Some (surf_id desc)"
  defines "s' \<equiv> snd (D3D9_SetRenderTarget 0 (Some desc) s)"
  shows "fst (D3D9_SetRenderTarget 0 (Some desc) s) = D3D_OK"
    and "renderTargets s' 0 = Some desc"
    and "flags_test ValidSampleMask s' = (MultiSample desc > D3DMULTISAMPLE_NONMASKABLE)"
    and "renderStates s' = renderStates s"
    and "flags_test ValidSampleMask s' \<noteq> flags_test ValidSampleMask s
           \<Longrightarrow> flags_test DirtyMultiSampleState s'"
    and "flags_test DirtyMultiSampleState s \<Longrightarrow> flags_test DirtyMultiSampleState s'"
    and "last_sample_mask (cs_stream s') = last_sample_mask (cs_stream s)"
proof -
  have r: "\<not> (unat (0 :: 32 word) \<ge> MaxSimultaneousRenderTargets
              \<or> (Some desc = None \<and> (0 :: 32 word) = 0))"
    by (simp add: MaxSimultaneousRenderTargets_def)
  have d: "map_option surf_id (renderTargets s (unat (0 :: 32 word))) \<noteq> map_option surf_id (Some desc)"
    using assms(1) by simp
  note u = SetRenderTarget_unfold(2) [OF r d refl refl]
  show "fst (D3D9_SetRenderTarget 0 (Some desc) s) = D3D_OK" by (simp add: u)
  show "renderTargets s' 0 = Some desc"
    by (simp add: s'_def u flags_set_def flags_clr_def)
  show v: "flags_test ValidSampleMask s' = (MultiSample desc > D3DMULTISAMPLE_NONMASKABLE)"
    by (auto simp: s'_def u flags_set_def flags_clr_def flags_test_def)
  show "renderStates s' = renderStates s"
    by (simp add: s'_def u flags_set_def flags_clr_def)
  show "flags_test DirtyMultiSampleState s'"
    if "flags_test ValidSampleMask s' \<noteq> flags_test ValidSampleMask s"
    using that unfolding v
    by (auto simp: s'_def u flags_set_def flags_clr_def flags_test_def)
  show "flags_test DirtyMultiSampleState s'" if "flags_test DirtyMultiSampleState s"
    using that by (auto simp: s'_def u flags_set_def flags_clr_def flags_test_def)
  show "last_sample_mask (cs_stream s') = last_sample_mask (cs_stream s)"
    by (simp add: s'_def u flags_set_def flags_clr_def)
qed

lemma SetRenderTarget_ms_ok:
  assumes ok: "multisample_state_ok s"
  shows "multisample_state_ok (snd (D3D9_SetRenderTarget i rt s))"
proof (cases "unat i \<ge> MaxSimultaneousRenderTargets \<or> (rt = None \<and> i = 0)
               \<or> map_option surf_id (renderTargets s (unat i)) = map_option surf_id rt")
  case True
  then have "snd (D3D9_SetRenderTarget i rt s) = s"
    by (auto simp: D3D9_SetRenderTarget_def)
  with ok show ?thesis by simp
next
  case False
  then have r: "\<not> (unat i \<ge> MaxSimultaneousRenderTargets \<or> (rt = None \<and> i = 0))"
    and d: "map_option surf_id (renderTargets s (unat i)) \<noteq> map_option surf_id rt"
    by blast+
  show ?thesis
  proof (cases "i = 0")
    case False
    then have n: "unat i \<noteq> 0" by (simp add: unat_eq_0)
    have f: "multisample_state_ok (D3D9_FlushImplicit False s)"
      using ok by (simp add: FlushImplicit_ms_ok)
    define s1 where "s1 = D3D9_FlushImplicit False s"
    have e: "renderTargets s = renderTargets s1" by (simp add: s1_def)
    have "snd (D3D9_SetRenderTarget i rt s)
            = (flags_set DirtyFramebuffer s1)\<lparr>renderTargets := (renderTargets s1)(unat i := rt)\<rparr>"
      using False by (simp add: SetRenderTarget_unfold(1) [OF r d False] s1_def)
    then show ?thesis
      using f n unfolding s1_def [symmetric]
      by (auto simp: multisample_state_ok_def flags_test_def primary_rt_masks_def
            draw_sample_mask_def flags_set_def)
  next
    case True
    with r obtain desc where rt: "rt = Some desc" by auto
    from d True rt have d': "map_option surf_id (renderTargets s 0) \<noteq> Some (surf_id desc)"
      by simp
    let ?s' = "snd (D3D9_SetRenderTarget 0 (Some desc) s)"
    note p = SetRenderTarget_primary [OF d']
    have pm: "primary_rt_masks ?s' = (MultiSample desc > D3DMULTISAMPLE_NONMASKABLE)"
      by (simp add: primary_rt_masks_def p(2))
    have 1: "flags_test ValidSampleMask ?s' = primary_rt_masks ?s'"
      by (simp add: pm p(3))
    have 2: "flags_test DirtyMultiSampleState ?s'
             \<or> last_sample_mask (cs_stream ?s') = Some (draw_sample_mask ?s')"
    proof (cases "flags_test ValidSampleMask ?s' = flags_test ValidSampleMask s")
      case False
      then show ?thesis using p(5) by simp
    next
      case same: True
      with 1 ok have "primary_rt_masks ?s' = primary_rt_masks s"
        by (simp add: multisample_state_ok_def)
      then have "draw_sample_mask ?s' = draw_sample_mask s"
        by (simp add: draw_sample_mask_def p(4))
      with ok p(6) p(7) show ?thesis by (auto simp: multisample_state_ok_def)
    qed
    show ?thesis unfolding True rt multisample_state_ok_def using 1 2 by simp
  qed
qed

lemma BindMultiSampleState_ok:
  assumes "flags_test ValidSampleMask s = primary_rt_masks s"
  shows "multisample_state_ok (BindMultiSampleState s)"
  using assms
  by (simp add: multisample_state_ok_def BindMultiSampleState_stream last_sample_mask_snoc
        draw_sample_mask_def)

text \<open>
  C8. \<^verbatim>\<open>SetRenderTarget\<close> with a new primary render target leaves the
  \<^verbatim>\<open>ValidSampleMask\<close> flag set exactly when the target's multisample type exceeds
  \<^verbatim>\<open>D3DMULTISAMPLE_NONMASKABLE\<close>, and \<^verbatim>\<open>SetRenderTarget\<close>, \<^verbatim>\<open>SetRenderState\<close>
  and the multisample step of \<^verbatim>\<open>PrepareDraw\<close> keep the bookkeeping in order: the flag
  agrees with the primary render target, and the multisample state is dirty or bound
  with the right mask. \<^verbatim>\<open>BindMultiSampleState\<close> emits the mask \<open>0xffffffff\<close> when the
  flag is unset and the \<^verbatim>\<open>D3DRS_MULTISAMPLEMASK\<close> render state when it is set, so
  after \<^verbatim>\<open>PrepareDraw\<close> the bound multisample state carries \<open>0xffffffff\<close> when the
  flag is unset, whatever the render state, and the render state when it is set.
\<close>

theorem sample_mask_at_draw_time:
  "(multisample_state_ok s \<longrightarrow>
       flags_test ValidSampleMask s = primary_rt_masks s
     \<and> multisample_state_ok (snd (D3D9_SetRenderTarget i rt s))
     \<and> multisample_state_ok (snd (D3D9_SetRenderState k v s))
     \<and> multisample_state_ok (PrepareDraw_MultiSample s)
     \<and> last_sample_mask (cs_stream (PrepareDraw_MultiSample s))
         = Some (if flags_test ValidSampleMask s
                 then renderStates s D3DRS_MULTISAMPLEMASK else 0xffffffff))
   \<and> (map_option surf_id (renderTargets s 0) \<noteq> Some (surf_id desc) \<longrightarrow>
       renderTargets (snd (D3D9_SetRenderTarget 0 (Some desc) s)) 0 = Some desc
     \<and> flags_test ValidSampleMask (snd (D3D9_SetRenderTarget 0 (Some desc) s))
         = (MultiSample desc > D3DMULTISAMPLE_NONMASKABLE))
   \<and> cs_stream (BindMultiSampleState s)
       = cs_stream s @ [setMultisampleState
                          (if flags_test ValidSampleMask s
                           then renderStates s D3DRS_MULTISAMPLEMASK else 0xffffffff)
                          (IsAlphaToCoverageEnabled s)]
   \<and> (flags_test ValidSampleMask s = primary_rt_masks s \<longrightarrow>
       multisample_state_ok (BindMultiSampleState s))"
proof (intro conjI impI)
  assume ok: "multisample_state_ok s"
  then show f: "flags_test ValidSampleMask s = primary_rt_masks s"
    by (simp add: multisample_state_ok_def)
  show "multisample_state_ok (snd (D3D9_SetRenderTarget i rt s))"
    using ok by (rule SetRenderTarget_ms_ok)
  show "multisample_state_ok (snd (D3D9_SetRenderState k v s))"
    using ok by (rule SetRenderState_ms_ok)
  show "multisample_state_ok (PrepareDraw_MultiSample s)"
    using ok by (rule PrepareDraw_MultiSample_ok(1))
  show "last_sample_mask (cs_stream (PrepareDraw_MultiSample s))
         = Some (if flags_test ValidSampleMask s
                 then renderStates s D3DRS_MULTISAMPLEMASK else 0xffffffff)"
    using PrepareDraw_MultiSample_ok(2) [OF ok] f by (simp add: draw_sample_mask_def)
next
  assume d: "map_option surf_id (renderTargets s 0) \<noteq> Some (surf_id desc)"
  show "renderTargets (snd (D3D9_SetRenderTarget 0 (Some desc) s)) 0 = Some desc"
    using d by (rule SetRenderTarget_primary(2))
  show "flags_test ValidSampleMask (snd (D3D9_SetRenderTarget 0 (Some desc) s))
         = (MultiSample desc > D3DMULTISAMPLE_NONMASKABLE)"
    using d by (rule SetRenderTarget_primary(3))
next
  show "cs_stream (BindMultiSampleState s)
       = cs_stream s @ [setMultisampleState
                          (if flags_test ValidSampleMask s
                           then renderStates s D3DRS_MULTISAMPLEMASK else 0xffffffff)
                          (IsAlphaToCoverageEnabled s)]"
    by (rule BindMultiSampleState_stream)
next
  assume "flags_test ValidSampleMask s = primary_rt_masks s"
  then show "multisample_state_ok (BindMultiSampleState s)" by (rule BindMultiSampleState_ok)
qed

theorem sample_mask_at_draw_time_witness:
  "multisample_state_ok ex_device_dirty
   \<and> last_sample_mask (cs_stream (PrepareDraw_MultiSample ex_device_dirty)) = Some 0xffffffff
   \<and> flags_test ValidSampleMask (snd (D3D9_SetRenderTarget 0 (Some ex_surface_ms) ex_device_dirty))
   \<and> multisample_state_ok ex_device_ms
   \<and> last_sample_mask
        (cs_stream (PrepareDraw_MultiSample (snd (D3D9_SetRenderState 162 0xf ex_device_ms))))
       = Some 0xf"
proof -
  have f: "m_flags ex_device_dirty = {DirtyMultiSampleState}"
    "renderTargets ex_device_dirty 0 = None"
    by (simp_all add: ex_device_dirty_def ex_device_def cs_state.defs)
  have g: "m_flags ex_device_ms = {ValidSampleMask, DirtyMultiSampleState}"
    "renderTargets ex_device_ms 0 = Some ex_surface_ms" "m_recorder ex_device_ms = None"
    "renderStates ex_device_ms 162 = 0"
    by (simp_all add: ex_device_ms_def ex_device_def cs_state.defs)
  have ok: "multisample_state_ok ex_device_dirty"
    by (simp add: multisample_state_ok_def flags_test_def primary_rt_masks_def f)
  have ok2: "multisample_state_ok ex_device_ms"
    by (simp add: multisample_state_ok_def flags_test_def primary_rt_masks_def g
          ex_surface_ms_def D3DMULTISAMPLE_NONMASKABLE_def)
  have nv: "\<not> flags_test ValidSampleMask ex_device_dirty" by (simp add: flags_test_def f)
  have d: "map_option surf_id (renderTargets ex_device_dirty 0) \<noteq> Some (surf_id ex_surface_ms)"
    by (simp add: f)
  have m: "MultiSample ex_surface_ms > D3DMULTISAMPLE_NONMASKABLE"
    by (simp add: ex_surface_ms_def D3DMULTISAMPLE_NONMASKABLE_def)
  let ?s2 = "snd (D3D9_SetRenderState 162 0xf ex_device_ms)"
  have s2: "?s2 = flags_set DirtyMultiSampleState
                    (ex_device_ms\<lparr>renderStates := (renderStates ex_device_ms)(162 := 0xf)\<rparr>)"
    by (simp add: D3D9_SetRenderState_def ShouldRecord_def g Let_def D3DRS_defs
          SetRenderState_switch_def flags_test_def)
  have v2: "flags_test ValidSampleMask ?s2" "renderStates ?s2 D3DRS_MULTISAMPLEMASK = 0xf"
    by (simp_all add: s2 flags_test_def g D3DRS_MULTISAMPLEMASK_def)
  from sample_mask_at_draw_time [where s = ex_device_dirty and desc = ex_surface_ms] ok nv d m
  have 1: "last_sample_mask (cs_stream (PrepareDraw_MultiSample ex_device_dirty)) = Some 0xffffffff"
    and 2: "flags_test ValidSampleMask (snd (D3D9_SetRenderTarget 0 (Some ex_surface_ms) ex_device_dirty))"
    by simp_all
  from sample_mask_at_draw_time [where s = ex_device_ms and k = 162 and v = 15] ok2
  have ok3: "multisample_state_ok ?s2" by blast
  from sample_mask_at_draw_time [where s = ?s2] ok3 v2
  have 3: "last_sample_mask (cs_stream (PrepareDraw_MultiSample ?s2)) = Some 0xf"
    by simp
  show ?thesis by (intro conjI ok 1 2 ok2 3)
qed
end
